theory Spec2Isabelle
  imports Main "HOL-Library.Word"
begin

unbundle bit_operations_syntax

section \<open>Data model of the sfc transmit path (drivers/net/ethernet/sfc/tx.c)\<close>

type_synonym u8 = "8 word"
type_synonym u16 = "16 word"
type_synonym u32 = "32 word"
type_synonym u64 = "64 word"

text \<open>
  Error numbers of include/uapi/asm-generic/errno-base.h and errno.h, and the two
  values of enum netdev_tx of include/linux/netdevice.h that the transmit path
  can name. The headers are not part of the sources at hand; the values are the
  kernel's.
\<close>

definition EIO :: int where "EIO = 5"
definition ENOMEM :: int where "ENOMEM = 12"
definition EINVAL :: int where "EINVAL = 22"
definition EOPNOTSUPP :: int where "EOPNOTSUPP = 95"

definition NETDEV_TX_OK :: int where "NETDEV_TX_OK = 0"
definition NETDEV_TX_BUSY :: int where "NETDEV_TX_BUSY = 16"

text \<open>
  The flag bits of a descriptor slot (EFX_TX_BUF_* of net_driver.h). The code
  only ever assigns whole flag words built from these names, so a slot's flags
  are the set of names that are on; the empty set is the cleared kind.
\<close>

datatype tx_buf_flag =
    EFX_TX_BUF_CONT
  | EFX_TX_BUF_SKB
  | EFX_TX_BUF_MAP_SINGLE
  | EFX_TX_BUF_OPTION
  | EFX_TX_BUF_XDP

text \<open>
  struct efx_tx_buffer. Packets and raw frames are referred to by identity
  (a number standing for the pointer). \<open>option_desc\<close> is the PIO option
  descriptor written by EFX_POPULATE_QWORD_5: byte count and buffer offset.
\<close>

record efx_tx_buffer =
  buf_skb :: "nat option"
  buf_xdpf :: "nat option"
  dma_addr :: u64
  option_desc :: "(u32 \<times> u32) option"
  buf_len :: u32
  unmap_len :: u32
  dma_offset :: u32
  flags :: "tx_buf_flag set"

text \<open>struct efx_buffer: one page of copy-buffer memory, by its DMA address.\<close>

record efx_buffer =
  page_dma_addr :: u64

text \<open>
  struct efx_tx_queue, the fields the transmit path reads or writes. The ring
  \<open>buffer\<close> is indexed by \<open>insert_count AND ptr_mask\<close>; a \<open>cb_page\<close> entry is
  \<open>None\<close> while its \<open>addr\<close> is NULL.
\<close>

record efx_tx_queue =
  insert_count :: u32
  read_count :: u32
  old_read_count :: u32
  ptr_mask :: u32
  buffer :: "u32 \<Rightarrow> efx_tx_buffer"
  cb_page :: "u32 \<Rightarrow> efx_buffer option"
  piobuf_offset :: u32
  xmit_more_available :: bool
  tso_fallbacks :: u32
  tso_bursts :: u32
  tso_packets :: u32
  pio_packets :: u32
  cb_packets :: u32
  tx_packets :: u64

text \<open>struct efx_nic, the fields the transmit path reads.\<close>

record efx_nic =
  txq_entries :: u32
  txq_stop_thresh :: u32
  loopback_selftest :: bool
  xdp_tx_queue_count :: u32
  xdp_tx_queues :: "u32 \<Rightarrow> efx_tx_queue option"

text \<open>
  How a packet was handed to a placement routine, and how a packet was released,
  recorded in call order.
\<close>

datatype placement = PlaceTSO | PlacePIO | PlaceCopy | PlaceMapData

datatype release = Kfree | Consume

text \<open>
  The state a call works on: the NIC, the queue submitted to (\<open>txq1\<close>), its
  partner as given by efx_tx_queue_partner (\<open>txq2\<close>), the stopped bit of the
  core queue the two share (netif_tx_stop_queue sets it, netif_tx_start_queue
  clears it), and logs of the calls made into the rest of the kernel:
  placement routines entered, doorbell pushes (1 for \<open>txq1\<close>, 2 for the
  partner, 0 for an XDP queue), packets released and raw frames returned.
\<close>

record world =
  efx :: efx_nic
  txq1 :: efx_tx_queue
  txq2 :: efx_tx_queue
  core_txq_stopped :: bool
  placements :: "(nat \<times> placement) list"
  pushes :: "nat list"
  released :: "(nat \<times> release) list"
  returned_frames :: "nat list"

section \<open>Backpressure: efx_tx_maybe_stop_queue (tx.c, lines 60-99)\<close>

text \<open>
  \<open>max(txq1->insert_count - txq1->old_read_count,
       txq2->insert_count - txq2->old_read_count)\<close>, in unsigned 32-bit arithmetic.
\<close>

definition fill_level_old :: "world \<Rightarrow> u32" where
  "fill_level_old w =
     max (insert_count (txq1 w) - old_read_count (txq1 w))
         (insert_count (txq2 w) - old_read_count (txq2 w))"

text \<open>The same expression over the values READ_ONCE fetches from \<open>read_count\<close>.\<close>

definition fill_level_fresh :: "world \<Rightarrow> u32" where
  "fill_level_fresh w =
     max (insert_count (txq1 w) - read_count (txq1 w))
         (insert_count (txq2 w) - read_count (txq2 w))"

text \<open>
  The \<open>read_count\<close> fields of the state are what the two READ_ONCE calls return,
  that is, the completion side's progress up to the barrier. The paranoid
  warning on \<open>fill_level >= txq_entries\<close> has no effect on control flow.
\<close>

definition efx_tx_maybe_stop_queue :: "world \<Rightarrow> world" where
  "efx_tx_maybe_stop_queue w =
     (if fill_level_old w < txq_stop_thresh (efx w) then w
      else
        let w1 = w\<lparr>core_txq_stopped := True\<rparr>;
            w2 = w1\<lparr>txq1 := (txq1 w1)\<lparr>old_read_count := read_count (txq1 w1)\<rparr>\<rparr>;
            w3 = w2\<lparr>txq2 := (txq2 w2)\<lparr>old_read_count := read_count (txq2 w2)\<rparr>\<rparr>
        in if fill_level_old w3 < txq_stop_thresh (efx w3) then
             (if \<not> loopback_selftest (efx w3)
              then w3\<lparr>core_txq_stopped := False\<rparr>
              else w3)
           else w3)"

section \<open>Packets and the helpers that are not part of tx.c\<close>

text \<open>
  struct sk_buff, as far as efx_enqueue_skb looks at it: \<open>skb_len\<close> is
  \<open>skb->len\<close>, \<open>data_len\<close> is \<open>skb->data_len\<close>, \<open>is_gso\<close> is \<open>skb_is_gso(skb)\<close>,
  \<open>gso_segs\<close> is \<open>skb_shinfo(skb)->gso_segs\<close>. \<open>gso_segment\<close> is what
  \<open>skb_gso_segment(skb, 0)\<close> yields for this packet: \<open>Inl e\<close> for the error
  pointer \<open>ERR_PTR(e)\<close>, where \<open>e\<close> is a negative error number and never 0,
  \<open>Inr segs\<close> for the list of segments (empty for a NULL result). The packet
  carries it, so the recursion of the software fallback is over the structure
  of the packet.
\<close>

datatype sk_buff = SkBuff
  (skb_id: nat)
  (skb_len: u32)
  (data_len: u32)
  (is_gso: bool)
  (gso_segs: u16)
  (gso_segment: "int + sk_buff list")

text \<open>struct xdp_frame: identity and length; \<open>data\<close> is only handed to the DMA mapping.\<close>

record xdp_frame =
  xdpf_id :: nat
  xdpf_len :: u32

text \<open>
  The build configuration, the per-call inputs and the routines of other files
  that efx_enqueue_skb and efx_xdp_tx_buffers call; a routine may answer from
  the whole state it is called in. A routine that places data (\<open>handle_tso\<close>,
  \<open>efx_tx_map_data\<close>) answers with its return code and the descriptors it
  appended to the queue, in order; \<open>handle_tso\<close> also with the value it stores
  through \<open>data_mapped\<close>. \<open>efx_nic_alloc_buffer\<close> answers for a copy-buffer
  page index (\<open>None\<close>: allocation failed), \<open>dma_map_single\<close> for a raw frame
  (\<open>None\<close>: \<open>dma_mapping_error\<close> holds). \<open>netdev_tx_sent_queue\<close> is the
  result of \<open>__netdev_tx_sent_queue\<close> for a byte count and \<open>xmit_more\<close>.
\<close>

record env =
  EFX_USE_PIO :: bool
  efx_piobuf_size :: u32
  EFX_TX_CB_SIZE :: u32
  EFX_TX_CB_ORDER :: nat
  PAGE_SHIFT :: nat
  NET_IP_ALIGN :: u32
  netdev_xmit_more :: bool
  handle_tso :: "world \<Rightarrow> sk_buff \<Rightarrow> int \<times> bool \<times> efx_tx_buffer list"
  efx_tx_map_data :: "world \<Rightarrow> sk_buff \<Rightarrow> u32 \<Rightarrow> int \<times> efx_tx_buffer list"
  efx_nic_may_tx_pio :: "world \<Rightarrow> bool"
  efx_nic_alloc_buffer :: "u32 \<Rightarrow> efx_buffer option"
  skb_copy_bits :: "sk_buff \<Rightarrow> int"
  netdev_tx_sent_queue :: "world \<Rightarrow> u32 \<Rightarrow> bool \<Rightarrow> bool"
  dma_map_single :: "xdp_frame \<Rightarrow> u64 option"

text \<open>\<open>efx_tx_queue_get_insert_index\<close>: \<open>insert_count & ptr_mask\<close>.\<close>

definition efx_tx_queue_get_insert_index :: "efx_tx_queue \<Rightarrow> u32" where
  "efx_tx_queue_get_insert_index q = insert_count q AND ptr_mask q"

text \<open>
  Modelled from the spec: a placement routine of another file (the TSO handler,
  efx_tx_map_data) "appends one or more descriptors and advances the queue's
  insert position"; each descriptor goes to the insert slot and
  \<open>insert_count\<close> grows by one.
\<close>

definition append_desc :: "efx_tx_queue \<Rightarrow> efx_tx_buffer \<Rightarrow> efx_tx_queue" where
  "append_desc q d =
     q\<lparr>buffer := (buffer q)(efx_tx_queue_get_insert_index q := d),
       insert_count := insert_count q + 1\<rparr>"

definition append_descs :: "efx_tx_queue \<Rightarrow> efx_tx_buffer list \<Rightarrow> efx_tx_queue" where
  "append_descs q ds = foldl append_desc q ds"

text \<open>
  Modelled from the spec: efx_enqueue_unwind is in tx_common.c, not at hand.
  "All descriptors appended since the caller's recorded old_insert_count must
  be unwound: each is unmapped if it owns a mapping, its buffer kind cleared,
  and insert_count reset to the pre-submission value." Working backwards from
  the insert position, a slot that owns a mapping (\<open>unmap_len \<noteq> 0\<close>) is
  unmapped, which leaves \<open>unmap_len = 0\<close>, and its flags are cleared.
\<close>

definition efx_unwind_buffer :: "efx_tx_buffer \<Rightarrow> efx_tx_buffer" where
  "efx_unwind_buffer b =
     (if unmap_len b \<noteq> 0 then b\<lparr>unmap_len := 0, flags := {}\<rparr> else b\<lparr>flags := {}\<rparr>)"

lemma unat_dec_less: "(x::u32) \<noteq> y \<Longrightarrow> unat (x - 1 - y) < unat (x - y)"
proof -
  assume ne: "x \<noteq> y"
  then have nz: "x - y \<noteq> 0" by simp
  have eq: "x - 1 - y = x - y - 1" by simp
  have "unat (x - y - 1) = unat (x - y) - 1"
    using nz by (rule unat_minus_one)
  moreover have "0 < unat (x - y)"
    using nz by (simp add: unat_gt_0)
  ultimately show ?thesis
    unfolding eq by linarith
qed

function efx_enqueue_unwind :: "efx_tx_queue \<Rightarrow> u32 \<Rightarrow> efx_tx_queue" where
  "efx_enqueue_unwind q old_insert_count =
     (if insert_count q = old_insert_count then q
      else
        let q1 = q\<lparr>insert_count := insert_count q - 1\<rparr>;
            i = efx_tx_queue_get_insert_index q1
        in efx_enqueue_unwind
             (q1\<lparr>buffer := (buffer q1)(i := efx_unwind_buffer (buffer q1 i))\<rparr>)
             old_insert_count)"
  by pat_completeness auto
termination
  by (relation "measure (\<lambda>(q, old). unat (insert_count q - old))")
     (simp_all add: unat_dec_less)

text \<open>
  Modelled from the spec: efx_nic_push_buffers is the device doorbell, "an
  opaque push operation"; the state records that it was rung and for which
  queue.
\<close>

definition efx_nic_push_buffers :: "nat \<Rightarrow> world \<Rightarrow> world" where
  "efx_nic_push_buffers k w = w\<lparr>pushes := pushes w @ [k]\<rparr>"

section \<open>Copy buffers: efx_tx_get_copy_buffer, efx_enqueue_skb_copy (tx.c, lines 34-126)\<close>

text \<open>
  The result is \<open>None\<close> for a NULL return. The \<open>buffer\<close> argument is the insert
  slot, as efx_enqueue_skb_copy passes it. On success the slot has its
  \<open>dma_addr\<close> set into the page and \<open>unmap_len = 0\<close>; a page allocated on the
  way stays with the queue.
\<close>

definition efx_tx_get_copy_buffer :: "env \<Rightarrow> efx_tx_queue \<Rightarrow> efx_tx_queue option" where
  "efx_tx_get_copy_buffer e q =
     (let index = efx_tx_queue_get_insert_index q;
          pg = drop_bit (PAGE_SHIFT e - EFX_TX_CB_ORDER e) index;
          offset = (push_bit (EFX_TX_CB_ORDER e) index + NET_IP_ALIGN e)
                     AND (push_bit (PAGE_SHIFT e) 1 - 1)
      in case (case cb_page q pg of
                 None \<Rightarrow> efx_nic_alloc_buffer e pg
               | Some page_buf \<Rightarrow> Some page_buf) of
           None \<Rightarrow> None
         | Some page_buf \<Rightarrow>
             Some (q\<lparr>cb_page := (cb_page q)(pg \<mapsto> page_buf),
                     buffer := (buffer q)(index := (buffer q index)
                        \<lparr>dma_addr := page_dma_addr page_buf + ucast offset,
                         unmap_len := 0\<rparr>)\<rparr>))"

definition efx_tx_get_copy_buffer_limited ::
  "env \<Rightarrow> efx_tx_queue \<Rightarrow> nat \<Rightarrow> efx_tx_queue option" where
  "efx_tx_get_copy_buffer_limited e q len =
     (if len > unat (EFX_TX_CB_SIZE e) then None else efx_tx_get_copy_buffer e q)"

definition efx_enqueue_skb_copy :: "env \<Rightarrow> efx_tx_queue \<Rightarrow> sk_buff \<Rightarrow> int \<times> efx_tx_queue" where
  "efx_enqueue_skb_copy e q skb =
     (let copy_len = skb_len skb in
      case efx_tx_get_copy_buffer e q of
        None \<Rightarrow> (- ENOMEM, q)
      | Some q1 \<Rightarrow>
          let rc = skb_copy_bits e skb;
              i = efx_tx_queue_get_insert_index q1;
              b = (buffer q1 i)\<lparr>buf_skb := Some (skb_id skb), buf_len := copy_len,
                                flags := {EFX_TX_BUF_SKB}\<rparr>
          in (rc, q1\<lparr>buffer := (buffer q1)(i := b),
                     insert_count := insert_count q1 + 1\<rparr>))"

section \<open>Programmed writes: efx_enqueue_skb_pio (tx.c, lines 222-268)\<close>

text \<open>
  The bytes go to the device's write-combining buffer, which is outside the
  state; what remains in the queue is one option descriptor with the packet's
  length and the buffer's offset.
\<close>

definition efx_enqueue_skb_pio :: "efx_tx_queue \<Rightarrow> sk_buff \<Rightarrow> int \<times> efx_tx_queue" where
  "efx_enqueue_skb_pio q skb =
     (let i = efx_tx_queue_get_insert_index q;
          b = (buffer q i)\<lparr>buf_skb := Some (skb_id skb),
                           flags := {EFX_TX_BUF_SKB, EFX_TX_BUF_OPTION},
                           option_desc := Some (skb_len skb, piobuf_offset q)\<rparr>
      in (0, q\<lparr>buffer := (buffer q)(i := b), insert_count := insert_count q + 1\<rparr>))"

section \<open>Submission: efx_tx_tso_fallback and efx_enqueue_skb (tx.c, lines 280-413)\<close>

text \<open>
  \<open>segments = skb_is_gso(skb) ? skb_shinfo(skb)->gso_segs : 0\<close>, and a single
  segment does not use TSO.
\<close>

definition tso_segments :: "sk_buff \<Rightarrow> u32" where
  "tso_segments skb =
     (let segments = (if is_gso skb then ucast (gso_segs skb) else 0)
      in if segments = 1 then 0 else segments)"

text \<open>
  The condition of the PIO branch; without \<open>EFX_USE_PIO\<close> the branch is not
  compiled.
\<close>

definition pio_eligible :: "env \<Rightarrow> sk_buff \<Rightarrow> world \<Rightarrow> bool" where
  "pio_eligible e skb w \<longleftrightarrow>
     EFX_USE_PIO e \<and> skb_len skb \<le> efx_piobuf_size e \<and> \<not> netdev_xmit_more e
       \<and> efx_nic_may_tx_pio e w"

text \<open>
  Where the first part of efx_enqueue_skb (lines 318-364) leaves: at label
  \<open>err\<close>, at the \<open>return 0\<close> after a software fallback, or past the mapping
  with all descriptors of the packet in the ring.
\<close>

datatype outcome = GotoErr world | Return0 world | Mapped world

text \<open>
  Lines 362-364: map for DMA unless a fast path or the TSO handler has placed
  the data already.
\<close>

definition efx_enqueue_skb_map :: "env \<Rightarrow> sk_buff \<Rightarrow> u32 \<Rightarrow> bool \<Rightarrow> world \<Rightarrow> outcome" where
  "efx_enqueue_skb_map e skb segments data_mapped w =
     (if \<not> data_mapped then
        (case efx_tx_map_data e w skb segments of (rc, ds) \<Rightarrow>
           let w1 = w\<lparr>txq1 := append_descs (txq1 w) ds,
                      placements := placements w @ [(skb_id skb, PlaceMapData)]\<rparr>
           in if rc \<noteq> 0 then GotoErr w1 else Mapped w1)
      else Mapped w)"

text \<open>
  Lines 366-392: backpressure, doorbell and counters of a packet that has been
  placed.
\<close>

definition efx_enqueue_skb_sent :: "env \<Rightarrow> sk_buff \<Rightarrow> world \<Rightarrow> int \<times> world" where
  "efx_enqueue_skb_sent e skb w =
     (let xmit_more = netdev_xmit_more e;
          segments = tso_segments skb;
          w1 = efx_tx_maybe_stop_queue w;
          w2 = (if netdev_tx_sent_queue e w1 (skb_len skb) xmit_more
                then efx_nic_push_buffers 1
                       (if xmit_more_available (txq2 w1)
                        then efx_nic_push_buffers 2 w1 else w1)
                else w1\<lparr>txq1 := (txq1 w1)\<lparr>xmit_more_available := xmit_more\<rparr>\<rparr>);
          q = txq1 w2;
          q' = (if segments \<noteq> 0
                then q\<lparr>tso_bursts := tso_bursts q + 1,
                       tso_packets := tso_packets q + segments,
                       tx_packets := tx_packets q + ucast segments\<rparr>
                else q\<lparr>tx_packets := tx_packets q + 1\<rparr>)
      in (NETDEV_TX_OK, w2\<lparr>txq1 := q'\<rparr>))"

text \<open>Lines 395-412, the code at label \<open>err\<close>.\<close>

definition efx_enqueue_skb_err :: "env \<Rightarrow> sk_buff \<Rightarrow> u32 \<Rightarrow> world \<Rightarrow> int \<times> world" where
  "efx_enqueue_skb_err e skb old_insert_count w =
     (let w1 = w\<lparr>txq1 := efx_enqueue_unwind (txq1 w) old_insert_count\<rparr>;
          w2 = w1\<lparr>released := released w1 @ [(skb_id skb, Kfree)]\<rparr>;
          w3 = (if \<not> netdev_xmit_more e
                then efx_nic_push_buffers 1
                       (if xmit_more_available (txq2 w2)
                        then efx_nic_push_buffers 2 w2 else w2)
                else w2)
      in (NETDEV_TX_OK, w3))"

text \<open>
  efx_enqueue_skb, efx_tx_tso_fallback and the walk over the list of segments
  call each other. \<open>efx_enqueue_skb_place\<close> is the body of efx_enqueue_skb up
  to line 364.
\<close>

function efx_enqueue_skb_place :: "env \<Rightarrow> sk_buff \<Rightarrow> world \<Rightarrow> outcome"
  and efx_tx_tso_fallback :: "env \<Rightarrow> sk_buff \<Rightarrow> world \<Rightarrow> int \<times> world"
  and efx_enqueue_segments :: "env \<Rightarrow> sk_buff list \<Rightarrow> world \<Rightarrow> world"
  and efx_enqueue_skb :: "env \<Rightarrow> sk_buff \<Rightarrow> world \<Rightarrow> int \<times> world"
where
  "efx_enqueue_skb_place e skb w =
     (let segments = tso_segments skb in
      if segments \<noteq> 0 then
        (case handle_tso e w skb of (rc, data_mapped, ds) \<Rightarrow>
           let w1 = w\<lparr>txq1 := append_descs (txq1 w) ds,
                      placements := placements w @ [(skb_id skb, PlaceTSO)]\<rparr>
           in if rc = - EINVAL then
                (case efx_tx_tso_fallback e skb w1 of (rc2, w2) \<Rightarrow>
                   let w3 = w2\<lparr>txq1 := (txq1 w2)
                               \<lparr>tso_fallbacks := tso_fallbacks (txq1 w2) + 1\<rparr>\<rparr>
                   in if rc2 = 0 then Return0 w3 else GotoErr w3)
              else if rc \<noteq> 0 then GotoErr w1
              else efx_enqueue_skb_map e skb segments data_mapped w1)
      else if pio_eligible e skb w then
        (case efx_enqueue_skb_pio (txq1 w) skb of (rc, q) \<Rightarrow>
           let w1 = w\<lparr>txq1 := q,
                      placements := placements w @ [(skb_id skb, PlacePIO)]\<rparr>
           in if rc \<noteq> 0 then GotoErr w1
              else efx_enqueue_skb_map e skb segments True
                     (w1\<lparr>txq1 := (txq1 w1)\<lparr>pio_packets := pio_packets (txq1 w1) + 1\<rparr>\<rparr>))
      else if data_len skb \<noteq> 0 \<and> skb_len skb \<le> EFX_TX_CB_SIZE e then
        (case efx_enqueue_skb_copy e (txq1 w) skb of (rc, q) \<Rightarrow>
           let w1 = w\<lparr>txq1 := q,
                      placements := placements w @ [(skb_id skb, PlaceCopy)]\<rparr>
           in if rc \<noteq> 0 then GotoErr w1
              else efx_enqueue_skb_map e skb segments True
                     (w1\<lparr>txq1 := (txq1 w1)\<lparr>cb_packets := cb_packets (txq1 w1) + 1\<rparr>\<rparr>))
      else efx_enqueue_skb_map e skb segments False w)"
| "efx_tx_tso_fallback e skb w =
     (case gso_segment skb of
        Inl err \<Rightarrow> (err, w)
      | Inr segments \<Rightarrow>
          (0, efx_enqueue_segments e segments
                (w\<lparr>released := released w @ [(skb_id skb, Consume)]\<rparr>)))"
| "efx_enqueue_segments e [] w = w"
| "efx_enqueue_segments e (skb # next) w =
     efx_enqueue_segments e next (snd (efx_enqueue_skb e skb w))"
| "efx_enqueue_skb e skb w =
     (let old_insert_count = insert_count (txq1 w) in
      case efx_enqueue_skb_place e skb w of
        GotoErr w1 \<Rightarrow> efx_enqueue_skb_err e skb old_insert_count w1
      | Return0 w1 \<Rightarrow> (0, w1)
      | Mapped w1 \<Rightarrow> efx_enqueue_skb_sent e skb w1)"
  by pat_completeness auto
termination
proof (relation "measure (\<lambda>a. case a of
            Inl (Inl (e, skb, w)) \<Rightarrow> 2 * size skb + 1
          | Inl (Inr (e, skb, w)) \<Rightarrow> 2 * size skb
          | Inr (Inl (e, segs, w)) \<Rightarrow> 2 * size_list size segs + 1
          | Inr (Inr (e, skb, w)) \<Rightarrow> 2 * size skb + 2)", goal_cases)
  case (3 e skb w segs)
  then show ?case by (cases skb) simp
qed simp_all

section \<open>Raw frames: efx_xdp_return_frames and efx_xdp_tx_buffers (tx.c, lines 415-501)\<close>

text \<open>
  \<open>xdp_return_frame_rx_napi\<close> on the first \<open>n\<close> entries of the array, in order.
  An array of frames is a function of the index.
\<close>

definition efx_xdp_return_frames :: "int \<Rightarrow> (nat \<Rightarrow> xdp_frame) \<Rightarrow> world \<Rightarrow> world" where
  "efx_xdp_return_frames n xdpfs w =
     w\<lparr>returned_frames :=
         returned_frames w @ map (\<lambda>i. xdpf_id (xdpfs i)) [0..<nat n]\<rparr>"

text \<open>
  Modelled from the spec: efx_tx_map_chunk is in tx_common.c, not at hand. A
  raw frame is "single-fragment only", and the transmitter maps it "appending
  a descriptor" (the code: "We should never need multiple descriptors per
  frame"): one slot gets address, length and the continuation flag, and is
  the buffer returned.
\<close>

definition efx_tx_map_chunk :: "efx_tx_queue \<Rightarrow> u64 \<Rightarrow> u32 \<Rightarrow> u32 \<times> efx_tx_queue" where
  "efx_tx_map_chunk q dma len =
     (let i = efx_tx_queue_get_insert_index q;
          b = (buffer q i)\<lparr>buf_len := len, dma_addr := dma, flags := {EFX_TX_BUF_CONT}\<rparr>
      in (i, q\<lparr>buffer := (buffer q)(i := b), insert_count := insert_count q + 1\<rparr>))"

text \<open>
  The body of the loop after a successful mapping (lines 481-488): the
  descriptor of one frame.
\<close>

definition efx_xdp_queue_frame :: "efx_tx_queue \<Rightarrow> xdp_frame \<Rightarrow> u64 \<Rightarrow> efx_tx_queue" where
  "efx_xdp_queue_frame q xdpf dma =
     (case efx_tx_map_chunk q dma (xdpf_len xdpf) of (i, q1) \<Rightarrow>
        let b = (buffer q1 i)\<lparr>buf_xdpf := Some (xdpf_id xdpf),
                               flags := {EFX_TX_BUF_XDP, EFX_TX_BUF_MAP_SINGLE},
                               dma_offset := 0,
                               unmap_len := xdpf_len xdpf\<rparr>
        in q1\<lparr>buffer := (buffer q1)(i := b), tx_packets := tx_packets q1 + 1\<rparr>)"

text \<open>
  The loop of lines 463-489, from position \<open>i\<close>; the result is the position at
  which it stops and the queue.
\<close>

function efx_xdp_tx_loop ::
  "env \<Rightarrow> int \<Rightarrow> int \<Rightarrow> (nat \<Rightarrow> xdp_frame) \<Rightarrow> int \<Rightarrow> efx_tx_queue \<Rightarrow> int \<times> efx_tx_queue" where
  "efx_xdp_tx_loop e space n xdpfs i q =
     (if i < n then
        (let xdpf = xdpfs (nat i) in
         if i \<ge> space then (i, q)
         else case dma_map_single e xdpf of
                None \<Rightarrow> (i, q)
              | Some dma \<Rightarrow>
                  efx_xdp_tx_loop e space n xdpfs (i + 1) (efx_xdp_queue_frame q xdpf dma))
      else (i, q))"
  by pat_completeness auto
termination
  by (relation "measure (\<lambda>(e, space, n, xdpfs, i, q). nat (n - i))") simp_all

text \<open>
  \<open>cpu\<close> is \<open>raw_smp_processor_id()\<close> as the comparison with the unsigned queue
  count sees it; \<open>xdpfs\<close> is \<open>None\<close> for a NULL array. \<open>space\<close> is an \<open>int\<close>
  holding the unsigned sum.
\<close>

definition efx_xdp_tx_buffers ::
  "env \<Rightarrow> u32 \<Rightarrow> int \<Rightarrow> (nat \<Rightarrow> xdp_frame) option \<Rightarrow> bool \<Rightarrow> world \<Rightarrow> int \<times> world" where
  "efx_xdp_tx_buffers e cpu n xdpfs flush w =
     (if xdp_tx_queue_count (efx w) = 0 \<or> cpu \<ge> xdp_tx_queue_count (efx w)
      then (- EINVAL, w)
      else case xdp_tx_queues (efx w) cpu of
        None \<Rightarrow> (- EINVAL, w)
      | Some tx_queue \<Rightarrow>
          if n \<noteq> 0 \<and> xdpfs = None then (- EINVAL, w)
          else if n = 0 then (0, w)
          else case xdpfs of
            None \<Rightarrow> (- EINVAL, w)
          | Some fs \<Rightarrow>
              let space = sint (txq_entries (efx w) + read_count tx_queue
                                  - insert_count tx_queue)
              in case efx_xdp_tx_loop e space n fs 0 tx_queue of (i, q) \<Rightarrow>
                   let w1 = w\<lparr>efx := (efx w)
                              \<lparr>xdp_tx_queues := (xdp_tx_queues (efx w))(cpu \<mapsto> q)\<rparr>\<rparr>;
                       w2 = (if flush \<and> i > 0 then efx_nic_push_buffers 0 w1 else w1)
                   in if i = 0 then (- EIO, w2)
                      else (i, efx_xdp_return_frames (n - i) (\<lambda>k. fs (nat i + k)) w2))"

section \<open>Traffic classes: efx_init_tx_queue_core_txq and efx_setup_tc (tx.c, lines 538-614)\<close>

text \<open>
  struct netdev_tc_txq and the fields of struct net_device and struct
  tc_mqprio_qopt that efx_setup_tc touches. \<open>nd_num_tc\<close> is a signed 16-bit
  field.
\<close>

record netdev_tc_txq =
  tc_count :: u16
  tc_offset :: u16

record net_device =
  nd_num_tc :: u16
  nd_tc_to_txq :: "nat \<Rightarrow> netdev_tc_txq"
  nd_real_num_tx_queues :: u32

record tc_mqprio_qopt =
  qopt_num_tc :: u8
  qopt_hw :: u8

datatype tc_setup_type = TC_SETUP_QDISC_MQPRIO | TC_SETUP_OTHER

text \<open>
  A TX queue as the administrative path sees it: its number, its ring
  (\<open>None\<close> while \<open>tx_queue->buffer\<close> is NULL), the \<open>initialised\<close> flag and the
  index of the core queue it is bound to.
\<close>

record tc_tx_queue =
  queue :: u32
  tx_ring :: "efx_tx_queue option"
  initialised :: bool
  core_txq :: u32

text \<open>
  Constants of net_driver.h and pkt_cls.h and the routines of other files that
  efx_setup_tc calls: efx_probe_tx_queue answers with its return code and the
  queue, netif_set_real_num_tx_queues with its return code and the device.
\<close>

record tc_env =
  EFX_MAX_TX_TC :: u32
  EFX_TXQ_TYPES :: u32
  EFX_TXQ_TYPE_HIGHPRI :: u32
  TC_MQPRIO_HW_OFFLOAD_TCS :: u8
  efx_probe_tx_queue :: "tc_tx_queue \<Rightarrow> int \<times> tc_tx_queue"
  efx_init_tx_queue :: "tc_tx_queue \<Rightarrow> tc_tx_queue"
  netif_set_real_num_tx_queues :: "net_device \<Rightarrow> u32 \<Rightarrow> int \<times> net_device"

text \<open>
  The state of efx_setup_tc: the channel count, every possible TX queue in the
  order of the two nested iterators, the net device and the request.
\<close>

record tc_world =
  n_tx_channels :: u32
  tx_queues :: "tc_tx_queue list"
  net_dev :: net_device
  mqprio :: tc_mqprio_qopt

definition efx_init_tx_queue_core_txq :: "tc_env \<Rightarrow> u32 \<Rightarrow> tc_tx_queue \<Rightarrow> tc_tx_queue" where
  "efx_init_tx_queue_core_txq e n q =
     q\<lparr>core_txq := queue q div EFX_TXQ_TYPES e
                      + (if queue q AND EFX_TXQ_TYPE_HIGHPRI e \<noteq> 0 then n else 0)\<rparr>"

text \<open>Lines 573-576: offset and count of every class below \<open>num_tc\<close>.\<close>

definition efx_setup_tc_map ::
  "u32 \<Rightarrow> u32 \<Rightarrow> (nat \<Rightarrow> netdev_tc_txq) \<Rightarrow> (nat \<Rightarrow> netdev_tc_txq)" where
  "efx_setup_tc_map n num_tc m =
     foldl (\<lambda>m tc. m(tc := \<lparr>tc_count = ucast n, tc_offset = ucast (of_nat tc * n)\<rparr>))
       m [0..<unat num_tc]"

text \<open>
  Lines 580-594: the walk over the queues, which stops with the first probe
  that fails; queues already visited keep what was done to them.
\<close>

fun efx_setup_tc_highpri ::
  "tc_env \<Rightarrow> u32 \<Rightarrow> tc_tx_queue list \<Rightarrow> int \<times> tc_tx_queue list" where
  "efx_setup_tc_highpri e n [] = (0, [])"
| "efx_setup_tc_highpri e n (tx_queue # rest) =
     (if queue tx_queue AND EFX_TXQ_TYPE_HIGHPRI e = 0 then
        (case efx_setup_tc_highpri e n rest of (rc, rest') \<Rightarrow> (rc, tx_queue # rest'))
      else
        case (if tx_ring tx_queue = None then efx_probe_tx_queue e tx_queue
              else (0, tx_queue)) of (rc, q1) \<Rightarrow>
          if rc \<noteq> 0 then (rc, q1 # rest)
          else
            let q2 = (if \<not> initialised q1 then efx_init_tx_queue e q1 else q1);
                q3 = efx_init_tx_queue_core_txq e n q2
            in case efx_setup_tc_highpri e n rest of (rc', rest') \<Rightarrow> (rc', q3 # rest'))"

definition efx_setup_tc :: "tc_env \<Rightarrow> tc_setup_type \<Rightarrow> tc_world \<Rightarrow> int \<times> tc_world" where
  "efx_setup_tc e type w =
     (if type \<noteq> TC_SETUP_QDISC_MQPRIO then (- EOPNOTSUPP, w)
      else
        let num_tc = (ucast (qopt_num_tc (mqprio w)) :: u32) in
        if num_tc > EFX_MAX_TX_TC e then (- EINVAL, w)
        else
          let w1 = w\<lparr>mqprio := (mqprio w)\<lparr>qopt_hw := TC_MQPRIO_HW_OFFLOAD_TCS e\<rparr>\<rparr> in
          if num_tc = scast (nd_num_tc (net_dev w1)) then (0, w1)
          else
            let w2 = w1\<lparr>net_dev := (net_dev w1)
                       \<lparr>nd_tc_to_txq := efx_setup_tc_map (n_tx_channels w1) num_tc
                                          (nd_tc_to_txq (net_dev w1))\<rparr>\<rparr>
            in case (if num_tc > scast (nd_num_tc (net_dev w2)) then
                       (case efx_setup_tc_highpri e (n_tx_channels w2) (tx_queues w2) of
                          (rc, qs) \<Rightarrow> (rc, w2\<lparr>tx_queues := qs\<rparr>))
                     else (0, w2\<lparr>net_dev := (net_dev w2)\<lparr>nd_num_tc := ucast num_tc\<rparr>\<rparr>))
               of (rc, w3) \<Rightarrow>
                 if rc \<noteq> 0 then (rc, w3)
                 else
                   case netif_set_real_num_tx_queues e (net_dev w3)
                          (word_of_int (max (sint num_tc) 1) * n_tx_channels w3) of
                     (rc2, nd) \<Rightarrow>
                       if rc2 \<noteq> 0 then (rc2, w3\<lparr>net_dev := nd\<rparr>)
                       else (0, w3\<lparr>net_dev := nd\<lparr>nd_num_tc := ucast num_tc\<rparr>\<rparr>))"

section \<open>What the properties speak of, and example states\<close>

text \<open>
  A slot that holds no mapping obligation and whose kind is cleared.
\<close>

definition slot_clear :: "efx_tx_buffer \<Rightarrow> bool" where
  "slot_clear b \<longleftrightarrow> unmap_len b = 0 \<and> flags b = {}"

text \<open>
  An empty ring of eight slots, a NIC with one XDP queue bound to CPU 0 and a
  stop threshold of six, and a state with nothing logged.
\<close>

definition buffer0 :: efx_tx_buffer where
  "buffer0 = \<lparr>buf_skb = None, buf_xdpf = None, dma_addr = 0, option_desc = None,
              buf_len = 0, unmap_len = 0, dma_offset = 0, flags = {}\<rparr>"

definition queue0 :: efx_tx_queue where
  "queue0 = \<lparr>insert_count = 0, read_count = 0, old_read_count = 0, ptr_mask = 7,
             buffer = (\<lambda>i. buffer0), cb_page = (\<lambda>i. None), piobuf_offset = 0,
             xmit_more_available = False, tso_fallbacks = 0, tso_bursts = 0,
             tso_packets = 0, pio_packets = 0, cb_packets = 0, tx_packets = 0\<rparr>"

definition nic0 :: efx_nic where
  "nic0 = \<lparr>txq_entries = 8, txq_stop_thresh = 6, loopback_selftest = False,
           xdp_tx_queue_count = 1,
           xdp_tx_queues = (\<lambda>cpu. if cpu = 0 then Some queue0 else None)\<rparr>"

definition world0 :: world where
  "world0 = \<lparr>efx = nic0, txq1 = queue0, txq2 = queue0, core_txq_stopped = False,
             placements = [], pushes = [], released = [], returned_frames = []\<rparr>"

text \<open>
  The queue holds ten descriptors by the stale count (four completed) and
  three by the fresh one (seven completed).
\<close>

definition world_c1 :: world where
  "world_c1 = world0\<lparr>txq1 := queue0\<lparr>insert_count := 10, old_read_count := 4,
                                      read_count := 7\<rparr>\<rparr>"

definition world_c1_selftest :: world where
  "world_c1_selftest = world_c1\<lparr>efx := nic0\<lparr>loopback_selftest := True\<rparr>\<rparr>"

text \<open>The world an outcome carries.\<close>

definition outcome_world :: "outcome \<Rightarrow> world" where
  "outcome_world oc = (case oc of GotoErr w \<Rightarrow> w | Return0 w \<Rightarrow> w | Mapped w \<Rightarrow> w)"

text \<open>
  A build with PIO, 128-byte copy buffers in 4096-byte pages, and routines
  that succeed: the mapping appends one descriptor per packet, a PIO buffer is
  free when both queues are empty.
\<close>

definition desc_of :: "sk_buff \<Rightarrow> efx_tx_buffer" where
  "desc_of skb = buffer0\<lparr>buf_skb := Some (skb_id skb), buf_len := skb_len skb,
                         unmap_len := skb_len skb,
                         flags := {EFX_TX_BUF_SKB, EFX_TX_BUF_MAP_SINGLE}\<rparr>"

definition env0 :: env where
  "env0 = \<lparr>EFX_USE_PIO = True, efx_piobuf_size = 256, EFX_TX_CB_SIZE = 126,
           EFX_TX_CB_ORDER = 7, PAGE_SHIFT = 12, NET_IP_ALIGN = 2,
           netdev_xmit_more = False,
           handle_tso = (\<lambda>w skb. (0, True, [desc_of skb])),
           efx_tx_map_data = (\<lambda>w skb segments. (0, [desc_of skb])),
           efx_nic_may_tx_pio = (\<lambda>w. insert_count (txq1 w) = read_count (txq1 w)
                                   \<and> insert_count (txq2 w) = read_count (txq2 w)),
           efx_nic_alloc_buffer = (\<lambda>pg. Some \<lparr>page_dma_addr = 4096 * ucast pg\<rparr>),
           skb_copy_bits = (\<lambda>skb. 0),
           netdev_tx_sent_queue = (\<lambda>w bytes more. \<not> more \<or> core_txq_stopped w),
           dma_map_single = (\<lambda>xdpf. Some 4096)\<rparr>"

definition env_more :: env where
  "env_more = env0\<lparr>netdev_xmit_more := True\<rparr>"

text \<open>
  A short linear packet, a short fragmented one, and a long one whose mapping
  fails after two descriptors.
\<close>

definition skb_pio :: sk_buff where
  "skb_pio = SkBuff 1 60 0 False 0 (Inr [])"

definition skb_frag :: sk_buff where
  "skb_frag = SkBuff 2 100 40 False 0 (Inr [])"

definition skb_c2 :: sk_buff where
  "skb_c2 = SkBuff 7 1000 500 False 0 (Inr [])"

definition desc_c2 :: efx_tx_buffer where
  "desc_c2 = buffer0\<lparr>buf_len := 500, unmap_len := 500, flags := {EFX_TX_BUF_CONT}\<rparr>"

definition env_c2 :: env where
  "env_c2 = env0\<lparr>efx_tx_map_data := (\<lambda>w skb segments. (- EIO, [desc_c2, desc_c2]))\<rparr>"

definition world_c2 :: world where
  "world_c2 = world0\<lparr>txq1 := append_descs queue0 [desc_c2, desc_c2],
                     placements := [(7, PlaceMapData)]\<rparr>"

text \<open>
  Line 339, \<open>tx_queue->tso_fallbacks++\<close>, and the state after the TSO handler
  has appended \<open>ds\<close>.
\<close>

definition tso_fallbacks_incr :: "world \<Rightarrow> world" where
  "tso_fallbacks_incr w = w\<lparr>txq1 := (txq1 w)\<lparr>tso_fallbacks := tso_fallbacks (txq1 w) + 1\<rparr>\<rparr>"

definition tso_handled :: "sk_buff \<Rightarrow> efx_tx_buffer list \<Rightarrow> world \<Rightarrow> world" where
  "tso_handled skb ds w =
     w\<lparr>txq1 := append_descs (txq1 w) ds,
       placements := placements w @ [(skb_id skb, PlaceTSO)]\<rparr>"

text \<open>
  A placement stage of efx_enqueue_skb fails: the condition under which lines
  334-364 jump to label \<open>err\<close>, in terms of what the routines called answer.
\<close>

definition placement_fails :: "env \<Rightarrow> sk_buff \<Rightarrow> world \<Rightarrow> bool" where
  "placement_fails e skb w \<longleftrightarrow>
     (if tso_segments skb \<noteq> 0 then
        (case handle_tso e w skb of (rc, data_mapped, ds) \<Rightarrow>
           if rc = - EINVAL then (case gso_segment skb of Inl err \<Rightarrow> err \<noteq> 0 | Inr segs \<Rightarrow> False)
           else if rc \<noteq> 0 then True
           else \<not> data_mapped
                \<and> fst (efx_tx_map_data e (tso_handled skb ds w) skb (tso_segments skb)) \<noteq> 0)
      else if pio_eligible e skb w then False
      else if data_len skb \<noteq> 0 \<and> skb_len skb \<le> EFX_TX_CB_SIZE e then
        fst (efx_enqueue_skb_copy e (txq1 w) skb) \<noteq> 0
      else fst (efx_tx_map_data e w skb 0) \<noteq> 0)"

text \<open>
  A GSO packet of two segments, one whose segmentation fails with -ENOMEM, a
  TSO handler that reports the incompatibility and one that reports -EIO.
\<close>

definition seg_a :: sk_buff where
  "seg_a = SkBuff 11 1000 0 False 0 (Inr [])"

definition seg_b :: sk_buff where
  "seg_b = SkBuff 12 1000 0 False 0 (Inr [])"

definition skb_gso :: sk_buff where
  "skb_gso = SkBuff 10 2000 0 True 2 (Inr [seg_a, seg_b])"

definition skb_gso_bad :: sk_buff where
  "skb_gso_bad = SkBuff 13 2000 0 True 2 (Inl (- 12))"

definition env_tso :: env where
  "env_tso = env0\<lparr>handle_tso := (\<lambda>w skb. (- EINVAL, False, []))\<rparr>"

definition env_tso_io :: env where
  "env_tso_io = env0\<lparr>handle_tso := (\<lambda>w skb. (- EIO, False, []))\<rparr>"

text \<open>
  The queue after the frames \<open>a, \<dots>, a + k - 1\<close> of an array have been given
  descriptors one after the other; what a slot that holds a raw frame looks
  like; a queue bound to the calling CPU; and the \<open>space\<close> computed in lines
  460-461.
\<close>

fun efx_xdp_queue_frames ::
  "env \<Rightarrow> (nat \<Rightarrow> xdp_frame) \<Rightarrow> nat \<Rightarrow> nat \<Rightarrow> efx_tx_queue \<Rightarrow> efx_tx_queue" where
  "efx_xdp_queue_frames e fs a 0 q = q"
| "efx_xdp_queue_frames e fs a (Suc k) q =
     (case dma_map_single e (fs a) of
        None \<Rightarrow> q
      | Some dma \<Rightarrow> efx_xdp_queue_frames e fs (Suc a) k (efx_xdp_queue_frame q (fs a) dma))"

definition raw_frame_slot :: "efx_tx_buffer \<Rightarrow> xdp_frame \<Rightarrow> bool" where
  "raw_frame_slot b f \<longleftrightarrow>
     buf_xdpf b = Some (xdpf_id f)
     \<and> flags b = {EFX_TX_BUF_XDP, EFX_TX_BUF_MAP_SINGLE}
     \<and> buf_len b = xdpf_len f \<and> unmap_len b = xdpf_len f \<and> dma_offset b = 0"

definition xdp_bound :: "u32 \<Rightarrow> world \<Rightarrow> efx_tx_queue \<Rightarrow> bool" where
  "xdp_bound cpu w q \<longleftrightarrow>
     xdp_tx_queue_count (efx w) \<noteq> 0 \<and> cpu < xdp_tx_queue_count (efx w)
     \<and> xdp_tx_queues (efx w) cpu = Some q"

definition xdp_space :: "world \<Rightarrow> efx_tx_queue \<Rightarrow> int" where
  "xdp_space w q = sint (txq_entries (efx w) + read_count q - insert_count q)"

text \<open>
  Five frames of 64 bytes, an XDP queue on CPU 0 with five of eight slots in
  use and one with all eight in use, and a DMA mapping that fails for frame
  number \<open>k\<close> of the array.
\<close>

definition frames5 :: "nat \<Rightarrow> xdp_frame" where
  "frames5 i = \<lparr>xdpf_id = 100 + i, xdpf_len = 64\<rparr>"

definition queue_xdp :: efx_tx_queue where
  "queue_xdp = queue0\<lparr>insert_count := 5\<rparr>"

definition world_xdp :: world where
  "world_xdp = world0\<lparr>efx := nic0\<lparr>xdp_tx_queues :=
                 (\<lambda>cpu. if cpu = 0 then Some queue_xdp else None)\<rparr>\<rparr>"

definition queue_full :: efx_tx_queue where
  "queue_full = queue0\<lparr>insert_count := 8\<rparr>"

definition world_full :: world where
  "world_full = world0\<lparr>efx := nic0\<lparr>xdp_tx_queues :=
                 (\<lambda>cpu. if cpu = 0 then Some queue_full else None)\<rparr>\<rparr>"

definition env_fail :: "nat \<Rightarrow> env" where
  "env_fail k = env0\<lparr>dma_map_single :=
                  (\<lambda>f. if xdpf_id f = 100 + k then None else Some 4096)\<rparr>"

text \<open>
  Two traffic classes in use over four channels, a request for one class, a
  normal and a high-priority queue, both set up; and what a call that lowers
  the class count amounts to.
\<close>

definition tc_env0 :: tc_env where
  "tc_env0 = \<lparr>EFX_MAX_TX_TC = 2, EFX_TXQ_TYPES = 4, EFX_TXQ_TYPE_HIGHPRI = 2,
              TC_MQPRIO_HW_OFFLOAD_TCS = 1,
              efx_probe_tx_queue = (\<lambda>q. (0, q\<lparr>tx_ring := Some queue0\<rparr>)),
              efx_init_tx_queue = (\<lambda>q. q\<lparr>initialised := True\<rparr>),
              netif_set_real_num_tx_queues =
                (\<lambda>nd txq. (0, nd\<lparr>nd_real_num_tx_queues := txq\<rparr>))\<rparr>"

definition tc_queues0 :: "tc_tx_queue list" where
  "tc_queues0 =
     [\<lparr>queue = 0, tx_ring = Some queue0, initialised = True, core_txq = 0\<rparr>,
      \<lparr>queue = 2, tx_ring = Some queue0, initialised = True, core_txq = 4\<rparr>]"

definition tc_world0 :: tc_world where
  "tc_world0 = \<lparr>n_tx_channels = 4, tx_queues = tc_queues0,
                net_dev = \<lparr>nd_num_tc = 2,
                            nd_tc_to_txq = (\<lambda>tc. \<lparr>tc_count = 4, tc_offset = 4 * of_nat tc\<rparr>),
                            nd_real_num_tx_queues = 8\<rparr>,
                mqprio = \<lparr>qopt_num_tc = 1, qopt_hw = 0\<rparr>\<rparr>"

definition efx_setup_tc_lowered :: "tc_env \<Rightarrow> tc_world \<Rightarrow> int \<times> tc_world" where
  "efx_setup_tc_lowered e w =
     (let num_tc = (ucast (qopt_num_tc (mqprio w)) :: u32);
          nd1 = (net_dev w)\<lparr>nd_tc_to_txq := efx_setup_tc_map (n_tx_channels w) num_tc
                                               (nd_tc_to_txq (net_dev w)),
                            nd_num_tc := ucast num_tc\<rparr>
      in case netif_set_real_num_tx_queues e nd1
                (word_of_int (max (sint num_tc) 1) * n_tx_channels w) of
           (rc, nd) \<Rightarrow>
             (rc, w\<lparr>mqprio := (mqprio w)\<lparr>qopt_hw := TC_MQPRIO_HW_OFFLOAD_TCS e\<rparr>,
                    net_dev := (if rc \<noteq> 0 then nd else nd\<lparr>nd_num_tc := ucast num_tc\<rparr>)\<rparr>))"

section \<open>Properties\<close>

declare efx_enqueue_skb_place.simps [simp del] efx_tx_tso_fallback.simps [simp del]
  efx_enqueue_skb.simps [simp del] efx_enqueue_unwind.simps [simp del]
  efx_xdp_tx_loop.simps [simp del]

subsection \<open>Backpressure\<close>

lemma fill_level_old_reread:
  "fill_level_old
     (w\<lparr>core_txq_stopped := b,
        txq1 := (txq1 w)\<lparr>old_read_count := read_count (txq1 w)\<rparr>,
        txq2 := (txq2 w)\<lparr>old_read_count := read_count (txq2 w)\<rparr>\<rparr>)
   = fill_level_fresh w"
  by (simp add: fill_level_old_def fill_level_fresh_def)

lemma efx_tx_maybe_stop_queue_stopped:
  "core_txq_stopped (efx_tx_maybe_stop_queue w) =
     (if fill_level_old w < txq_stop_thresh (efx w) then core_txq_stopped w
      else \<not> (fill_level_fresh w < txq_stop_thresh (efx w)
              \<and> \<not> loopback_selftest (efx w)))"
  by (simp add: efx_tx_maybe_stop_queue_def Let_def fill_level_old_reread)

text \<open>
  C1. Whenever the cheap check sends efx_tx_maybe_stop_queue down the stop
  path (the stale fill level is not below the threshold) and the fill level
  computed from the re-read \<open>read_count\<close> of the queue and its partner is
  below the threshold, the queue ends started unless \<open>loopback_selftest\<close> is
  set. More generally, if the call took the stop path or found the queue
  started, and it leaves the queue stopped while the fresh fill level is below
  the threshold, then \<open>loopback_selftest\<close> is set. (The one case outside is a
  queue that was stopped before the call and whose stale fill level is already
  below the threshold: the call returns at once, without a fresh read.)
\<close>

theorem efx_tx_maybe_stop_queue_reopens:
  "(\<not> fill_level_old w < txq_stop_thresh (efx w)
      \<and> fill_level_fresh w < txq_stop_thresh (efx w)
      \<and> \<not> loopback_selftest (efx w)
    \<longrightarrow> \<not> core_txq_stopped (efx_tx_maybe_stop_queue w))
   \<and> ((\<not> fill_level_old w < txq_stop_thresh (efx w) \<or> \<not> core_txq_stopped w)
      \<and> core_txq_stopped (efx_tx_maybe_stop_queue w)
      \<and> fill_level_fresh w < txq_stop_thresh (efx w)
    \<longrightarrow> loopback_selftest (efx w))"
  by (auto simp add: efx_tx_maybe_stop_queue_stopped)

theorem efx_tx_maybe_stop_queue_reopens_witness:
  "(\<not> fill_level_old world_c1 < txq_stop_thresh (efx world_c1)
    \<and> fill_level_fresh world_c1 < txq_stop_thresh (efx world_c1)
    \<and> \<not> loopback_selftest (efx world_c1)
    \<and> \<not> core_txq_stopped (efx_tx_maybe_stop_queue world_c1))
   \<and> (\<not> fill_level_old world_c1_selftest < txq_stop_thresh (efx world_c1_selftest)
    \<and> core_txq_stopped (efx_tx_maybe_stop_queue world_c1_selftest)
    \<and> fill_level_fresh world_c1_selftest < txq_stop_thresh (efx world_c1_selftest)
    \<and> loopback_selftest (efx world_c1_selftest))"
proof -
  have h1: "\<not> fill_level_old world_c1 < txq_stop_thresh (efx world_c1)
     \<and> fill_level_fresh world_c1 < txq_stop_thresh (efx world_c1)
     \<and> \<not> loopback_selftest (efx world_c1)"
    by (simp add: world_c1_def world0_def queue0_def nic0_def fill_level_old_def
        fill_level_fresh_def)
  have h2: "\<not> fill_level_old world_c1_selftest < txq_stop_thresh (efx world_c1_selftest)
     \<and> fill_level_fresh world_c1_selftest < txq_stop_thresh (efx world_c1_selftest)
     \<and> core_txq_stopped (efx_tx_maybe_stop_queue world_c1_selftest)"
    by (simp add: world_c1_selftest_def world_c1_def world0_def queue0_def nic0_def
        fill_level_old_def fill_level_fresh_def efx_tx_maybe_stop_queue_def Let_def)
  from h1 h2 efx_tx_maybe_stop_queue_reopens [of world_c1]
    efx_tx_maybe_stop_queue_reopens [of world_c1_selftest]
  show ?thesis by blast
qed



subsection \<open>Unwinding\<close>

lemma unat_dec_eq: "(x::u32) \<noteq> y \<Longrightarrow> unat (x - 1 - y) = unat (x - y) - 1"
proof -
  assume ne: "x \<noteq> y"
  then have nz: "x - y \<noteq> 0" by simp
  have eq: "x - 1 - y = x - y - 1" by simp
  show ?thesis unfolding eq using nz by (rule unat_minus_one)
qed

lemma efx_enqueue_unwind_insert_count:
  "insert_count (efx_enqueue_unwind q old) = old"
proof (induction q old rule: efx_enqueue_unwind.induct)
  case (1 q old)
  show ?case
  proof (cases "insert_count q = old")
    case True
    then show ?thesis by (subst efx_enqueue_unwind.simps) simp
  next
    case False
    then show ?thesis
      using "1.IH" by (subst efx_enqueue_unwind.simps) (simp add: Let_def)
  qed
qed

lemma efx_enqueue_unwind_frame:
  "ptr_mask (efx_enqueue_unwind q old) = ptr_mask q
   \<and> tso_fallbacks (efx_enqueue_unwind q old) = tso_fallbacks q"
proof (induction q old rule: efx_enqueue_unwind.induct)
  case (1 q old)
  show ?case
  proof (cases "insert_count q = old")
    case True
    then show ?thesis by (subst (1 2) efx_enqueue_unwind.simps) simp
  next
    case False
    then show ?thesis
      using "1.IH" by (subst (1 2) efx_enqueue_unwind.simps) (simp add: Let_def)
  qed
qed

lemma slot_clear_unwind_buffer: "slot_clear (efx_unwind_buffer b)"
  by (simp add: slot_clear_def efx_unwind_buffer_def)

lemma efx_enqueue_unwind_keeps_clear:
  "slot_clear (buffer q i) \<Longrightarrow> slot_clear (buffer (efx_enqueue_unwind q old) i)"
proof (induction q old rule: efx_enqueue_unwind.induct)
  case (1 q old)
  show ?case
  proof (cases "insert_count q = old")
    case True
    then show ?thesis using "1.prems" by (subst efx_enqueue_unwind.simps) simp
  next
    case False
    then show ?thesis
      using "1.IH" "1.prems"
      by (subst efx_enqueue_unwind.simps)
         (simp add: Let_def slot_clear_unwind_buffer)
  qed
qed

lemma efx_enqueue_unwind_clears:
  "j < unat (insert_count q - old) \<Longrightarrow>
   slot_clear (buffer (efx_enqueue_unwind q old) ((old + of_nat j) AND ptr_mask q))"
proof (induction q old arbitrary: j rule: efx_enqueue_unwind.induct)
  case (1 q old)
  from "1.prems" have ne: "insert_count q \<noteq> old"
    by auto
  define q1 where "q1 = q\<lparr>insert_count := insert_count q - 1\<rparr>"
  define i where "i = efx_tx_queue_get_insert_index q1"
  define q2 where "q2 = q1\<lparr>buffer := (buffer q1)(i := efx_unwind_buffer (buffer q1 i))\<rparr>"
  have step: "efx_enqueue_unwind q old = efx_enqueue_unwind q2 old"
    using ne by (subst efx_enqueue_unwind.simps) (simp add: Let_def q2_def i_def q1_def)
  have mask: "ptr_mask q2 = ptr_mask q"
    by (simp add: q2_def q1_def)
  have ic2: "insert_count q2 = insert_count q - 1"
    by (simp add: q2_def q1_def)
  have cnt: "unat (insert_count q2 - old) = unat (insert_count q - old) - 1"
    unfolding ic2 using ne by (rule unat_dec_eq)
  show ?case
  proof (cases "j < unat (insert_count q2 - old)")
    case True
    have "slot_clear (buffer (efx_enqueue_unwind q2 old) ((old + of_nat j) AND ptr_mask q2))"
      using "1.IH" [OF ne q1_def i_def, of j] True
      by (simp add: q2_def)
    then show ?thesis by (simp add: step mask)
  next
    case False
    with "1.prems" cnt have j: "j = unat (insert_count q - 1 - old)"
      unfolding ic2 by linarith
    have "old + of_nat j = insert_count q - 1"
      unfolding j by simp
    then have "(old + of_nat j) AND ptr_mask q = i"
      by (simp add: i_def q1_def efx_tx_queue_get_insert_index_def)
    moreover have "slot_clear (buffer q2 i)"
      by (simp add: q2_def slot_clear_unwind_buffer)
    ultimately show ?thesis
      by (simp add: step efx_enqueue_unwind_keeps_clear)
  qed
qed

subsection \<open>The code at label err and the tail of a placed packet\<close>

lemma efx_nic_push_buffers_simps [simp]:
  "txq1 (efx_nic_push_buffers k w) = txq1 w"
  "txq2 (efx_nic_push_buffers k w) = txq2 w"
  "efx (efx_nic_push_buffers k w) = efx w"
  "core_txq_stopped (efx_nic_push_buffers k w) = core_txq_stopped w"
  "placements (efx_nic_push_buffers k w) = placements w"
  "released (efx_nic_push_buffers k w) = released w"
  "returned_frames (efx_nic_push_buffers k w) = returned_frames w"
  "pushes (efx_nic_push_buffers k w) = pushes w @ [k]"
  by (simp_all add: efx_nic_push_buffers_def)

lemma efx_enqueue_skb_err_result:
  "fst (efx_enqueue_skb_err e skb old w) = NETDEV_TX_OK"
  "txq1 (snd (efx_enqueue_skb_err e skb old w)) = efx_enqueue_unwind (txq1 w) old"
  "released (snd (efx_enqueue_skb_err e skb old w)) = released w @ [(skb_id skb, Kfree)]"
  "placements (snd (efx_enqueue_skb_err e skb old w)) = placements w"
  by (simp_all add: efx_enqueue_skb_err_def Let_def)

lemma efx_tx_maybe_stop_queue_frame:
  "placements (efx_tx_maybe_stop_queue w) = placements w"
  "released (efx_tx_maybe_stop_queue w) = released w"
  "pushes (efx_tx_maybe_stop_queue w) = pushes w"
  "insert_count (txq1 (efx_tx_maybe_stop_queue w)) = insert_count (txq1 w)"
  "tso_fallbacks (txq1 (efx_tx_maybe_stop_queue w)) = tso_fallbacks (txq1 w)"
  "pio_packets (txq1 (efx_tx_maybe_stop_queue w)) = pio_packets (txq1 w)"
  "buffer (txq1 (efx_tx_maybe_stop_queue w)) = buffer (txq1 w)"
  by (simp_all add: efx_tx_maybe_stop_queue_def Let_def)

lemma efx_enqueue_skb_sent_result:
  "fst (efx_enqueue_skb_sent e skb w) = NETDEV_TX_OK"
  "placements (snd (efx_enqueue_skb_sent e skb w)) = placements w"
  "released (snd (efx_enqueue_skb_sent e skb w)) = released w"
  "insert_count (txq1 (snd (efx_enqueue_skb_sent e skb w))) = insert_count (txq1 w)"
  "tso_fallbacks (txq1 (snd (efx_enqueue_skb_sent e skb w))) = tso_fallbacks (txq1 w)"
  "pio_packets (txq1 (snd (efx_enqueue_skb_sent e skb w))) = pio_packets (txq1 w)"
  "buffer (txq1 (snd (efx_enqueue_skb_sent e skb w))) = buffer (txq1 w)"
  by (simp_all add: efx_enqueue_skb_sent_def Let_def efx_tx_maybe_stop_queue_frame)

text \<open>
  C3. Whatever the queue, the packet and the answers of the routines called,
  efx_enqueue_skb returns NETDEV_TX_OK: after a placed packet, after the
  software fallback (\<open>return 0\<close>) and from label \<open>err\<close>. It does not return
  NETDEV_TX_BUSY.
\<close>

theorem efx_enqueue_skb_returns_ok:
  "fst (efx_enqueue_skb e skb w) = NETDEV_TX_OK
   \<and> fst (efx_enqueue_skb e skb w) \<noteq> NETDEV_TX_BUSY"
proof -
  have "fst (efx_enqueue_skb e skb w) = NETDEV_TX_OK"
    by (subst efx_enqueue_skb.simps)
       (simp add: Let_def efx_enqueue_skb_err_result efx_enqueue_skb_sent_result
          NETDEV_TX_OK_def split: outcome.split)
  then show ?thesis
    by (simp add: NETDEV_TX_OK_def NETDEV_TX_BUSY_def)
qed

lemma efx_enqueue_skb_goto_err:
  assumes "efx_enqueue_skb_place e skb w = GotoErr w1"
  shows "fst (efx_enqueue_skb e skb w) = NETDEV_TX_OK
    \<and> insert_count (txq1 (snd (efx_enqueue_skb e skb w))) = insert_count (txq1 w)
    \<and> (\<forall>j < unat (insert_count (txq1 w1) - insert_count (txq1 w)).
          slot_clear (buffer (txq1 (snd (efx_enqueue_skb e skb w)))
            ((insert_count (txq1 w) + of_nat j)
               AND ptr_mask (txq1 (snd (efx_enqueue_skb e skb w))))))
    \<and> released (snd (efx_enqueue_skb e skb w)) = released w1 @ [(skb_id skb, Kfree)]"
proof -
  have eq: "efx_enqueue_skb e skb w = efx_enqueue_skb_err e skb (insert_count (txq1 w)) w1"
    using assms by (subst efx_enqueue_skb.simps) (simp add: Let_def)
  show ?thesis
    unfolding eq
    by (simp add: efx_enqueue_skb_err_result efx_enqueue_unwind_insert_count
        efx_enqueue_unwind_frame efx_enqueue_unwind_clears)
qed


subsection \<open>Placement of a packet that does not use TSO\<close>

lemma append_descs_frame:
  "tso_fallbacks (append_descs q ds) = tso_fallbacks q"
  "ptr_mask (append_descs q ds) = ptr_mask q"
  "insert_count (append_descs q ds) = insert_count q + of_nat (length ds)"
  unfolding append_descs_def
  by (induction ds arbitrary: q) (simp_all add: append_desc_def)

lemma efx_enqueue_skb_pio_result:
  "efx_enqueue_skb_pio q skb =
     (0, q\<lparr>buffer := (buffer q)(efx_tx_queue_get_insert_index q :=
               (buffer q (efx_tx_queue_get_insert_index q))
                 \<lparr>buf_skb := Some (skb_id skb),
                  flags := {EFX_TX_BUF_SKB, EFX_TX_BUF_OPTION},
                  option_desc := Some (skb_len skb, piobuf_offset q)\<rparr>),
            insert_count := insert_count q + 1\<rparr>)"
  by (simp add: efx_enqueue_skb_pio_def Let_def)

lemma efx_enqueue_skb_copy_frame:
  "tso_fallbacks (snd (efx_enqueue_skb_copy e q skb)) = tso_fallbacks q"
  by (simp add: efx_enqueue_skb_copy_def efx_tx_get_copy_buffer_def Let_def
      split: option.split)

lemma efx_enqueue_skb_map_frame:
  "efx_enqueue_skb_map e skb segs dm w = oc \<Longrightarrow>
   (case oc of GotoErr w1 \<Rightarrow> tso_fallbacks (txq1 w1) = tso_fallbacks (txq1 w)
     | Return0 w1 \<Rightarrow> False
     | Mapped w1 \<Rightarrow> tso_fallbacks (txq1 w1) = tso_fallbacks (txq1 w))"
  by (auto simp add: efx_enqueue_skb_map_def Let_def append_descs_frame
      split: prod.splits if_splits)

lemma efx_enqueue_skb_place_nontso:
  "tso_segments skb = 0 \<Longrightarrow>
   efx_enqueue_skb_place e skb w =
     (if pio_eligible e skb w then
        Mapped (w\<lparr>txq1 := (snd (efx_enqueue_skb_pio (txq1 w) skb))
                     \<lparr>pio_packets := pio_packets (txq1 w) + 1\<rparr>,
                  placements := placements w @ [(skb_id skb, PlacePIO)]\<rparr>)
      else if data_len skb \<noteq> 0 \<and> skb_len skb \<le> EFX_TX_CB_SIZE e then
        (case efx_enqueue_skb_copy e (txq1 w) skb of (rc, q) \<Rightarrow>
           if rc \<noteq> 0
           then GotoErr (w\<lparr>txq1 := q, placements := placements w @ [(skb_id skb, PlaceCopy)]\<rparr>)
           else Mapped (w\<lparr>txq1 := q\<lparr>cb_packets := cb_packets q + 1\<rparr>,
                          placements := placements w @ [(skb_id skb, PlaceCopy)]\<rparr>))
      else
        (case efx_tx_map_data e w skb 0 of (rc, ds) \<Rightarrow>
           if rc \<noteq> 0
           then GotoErr (w\<lparr>txq1 := append_descs (txq1 w) ds,
                           placements := placements w @ [(skb_id skb, PlaceMapData)]\<rparr>)
           else Mapped (w\<lparr>txq1 := append_descs (txq1 w) ds,
                          placements := placements w @ [(skb_id skb, PlaceMapData)]\<rparr>)))"
  by (subst efx_enqueue_skb_place.simps)
     (simp add: Let_def efx_enqueue_skb_map_def efx_enqueue_skb_pio_result
        split: prod.split)

lemma efx_enqueue_skb_placements:
  "placements (snd (efx_enqueue_skb e skb w))
   = placements (outcome_world (efx_enqueue_skb_place e skb w))"
  by (subst efx_enqueue_skb.simps)
     (simp add: Let_def outcome_world_def efx_enqueue_skb_err_result
        efx_enqueue_skb_sent_result split: outcome.split)

text \<open>
  C4. A packet that does not use TSO is handed to exactly one placement
  routine: efx_enqueue_skb_pio if it is no longer than \<open>efx_piobuf_size\<close>,
  no further packet is announced and efx_nic_may_tx_pio holds (in a build with
  PIO); otherwise efx_enqueue_skb_copy if \<open>data_len\<close> is not zero and the
  length is at most \<open>EFX_TX_CB_SIZE\<close>; otherwise efx_tx_map_data. On the PIO
  path the call appends exactly one descriptor, the option descriptor of the
  packet, and counts one PIO packet.
\<close>

theorem efx_enqueue_skb_path:
  assumes "tso_segments skb = 0"
  shows "placements (snd (efx_enqueue_skb e skb w))
         = placements w @
             [(skb_id skb,
               if pio_eligible e skb w then PlacePIO
               else if data_len skb \<noteq> 0 \<and> skb_len skb \<le> EFX_TX_CB_SIZE e then PlaceCopy
               else PlaceMapData)]
    \<and> (pio_eligible e skb w \<longrightarrow>
         insert_count (txq1 (snd (efx_enqueue_skb e skb w))) = insert_count (txq1 w) + 1
         \<and> pio_packets (txq1 (snd (efx_enqueue_skb e skb w))) = pio_packets (txq1 w) + 1
         \<and> buffer (txq1 (snd (efx_enqueue_skb e skb w)))
            = (buffer (txq1 w))(efx_tx_queue_get_insert_index (txq1 w) :=
                (buffer (txq1 w) (efx_tx_queue_get_insert_index (txq1 w)))
                  \<lparr>buf_skb := Some (skb_id skb),
                   flags := {EFX_TX_BUF_SKB, EFX_TX_BUF_OPTION},
                   option_desc := Some (skb_len skb, piobuf_offset (txq1 w))\<rparr>))"
proof -
  have a: "placements (snd (efx_enqueue_skb e skb w))
         = placements w @
             [(skb_id skb,
               if pio_eligible e skb w then PlacePIO
               else if data_len skb \<noteq> 0 \<and> skb_len skb \<le> EFX_TX_CB_SIZE e then PlaceCopy
               else PlaceMapData)]"
    unfolding efx_enqueue_skb_placements efx_enqueue_skb_place_nontso [OF assms]
    by (simp add: outcome_world_def split: prod.split)
  have b: "insert_count (txq1 (snd (efx_enqueue_skb e skb w))) = insert_count (txq1 w) + 1
         \<and> pio_packets (txq1 (snd (efx_enqueue_skb e skb w))) = pio_packets (txq1 w) + 1
         \<and> buffer (txq1 (snd (efx_enqueue_skb e skb w)))
            = (buffer (txq1 w))(efx_tx_queue_get_insert_index (txq1 w) :=
                (buffer (txq1 w) (efx_tx_queue_get_insert_index (txq1 w)))
                  \<lparr>buf_skb := Some (skb_id skb),
                   flags := {EFX_TX_BUF_SKB, EFX_TX_BUF_OPTION},
                   option_desc := Some (skb_len skb, piobuf_offset (txq1 w))\<rparr>)"
    if "pio_eligible e skb w"
    using that
    by (subst (1 2 3) efx_enqueue_skb.simps)
       (simp add: efx_enqueue_skb_place_nontso [OF assms] Let_def
          efx_enqueue_skb_sent_result efx_enqueue_skb_pio_result)
  from a b show ?thesis by blast
qed


subsection \<open>Software fallback\<close>

lemma efx_enqueue_segments_foldl:
  "efx_enqueue_segments e segs w = foldl (\<lambda>w s. snd (efx_enqueue_skb e s w)) w segs"
  by (induction segs arbitrary: w) simp_all

lemma efx_enqueue_skb_map_released:
  "released (outcome_world (efx_enqueue_skb_map e skb segs dm w)) = released w"
  by (simp add: efx_enqueue_skb_map_def outcome_world_def Let_def split: prod.split)

lemma released_grows:
  "\<exists>ys. released (outcome_world (efx_enqueue_skb_place e skb w)) = released w @ ys"
  "\<exists>ys. released (snd (efx_tx_tso_fallback e skb w)) = released w @ ys"
  "\<exists>ys. released (efx_enqueue_segments e segs w) = released w @ ys"
  "\<exists>ys. released (snd (efx_enqueue_skb e skb w)) = released w @ ys"
proof (induction e skb w and e skb w and e segs w and e skb w
    rule: efx_enqueue_skb_place_efx_tx_tso_fallback_efx_enqueue_segments_efx_enqueue_skb.induct)
  case (1 e skb w)
  show ?case
  proof (cases "tso_segments skb = 0")
    case True
    then show ?thesis
      by (simp add: efx_enqueue_skb_place_nontso outcome_world_def split: prod.split)
  next
    case False
    obtain rc dm ds where h: "handle_tso e w skb = (rc, dm, ds)"
      by (cases "handle_tso e w skb") auto
    define w1 where "w1 = w\<lparr>txq1 := append_descs (txq1 w) ds,
                      placements := placements w @ [(skb_id skb, PlaceTSO)]\<rparr>"
    have r1: "released w1 = released w" by (simp add: w1_def)
    show ?thesis
    proof (cases "rc = - EINVAL")
      case True
      from "1.IH" [OF refl False h [symmetric] refl w1_def True]
      obtain ys where "released (snd (efx_tx_tso_fallback e skb w1)) = released w1 @ ys"
        by blast
      then show ?thesis
        using False h True
        by (subst efx_enqueue_skb_place.simps)
           (auto simp add: Let_def w1_def [symmetric] r1 outcome_world_def split: prod.split)
    next
      case F2: False
      then show ?thesis
        using False h efx_enqueue_skb_map_released [of e skb "tso_segments skb" dm w1]
        by (subst efx_enqueue_skb_place.simps)
           (simp add: Let_def w1_def [symmetric] r1 outcome_world_def)
    qed
  qed
next
  case (2 e skb w)
  show ?case
  proof (cases "gso_segment skb")
    case (Inl err)
    then show ?thesis by (simp add: efx_tx_tso_fallback.simps)
  next
    case (Inr segs)
    from "2.IH" [OF Inr] obtain ys where
      "released (efx_enqueue_segments e segs
          (w\<lparr>released := released w @ [(skb_id skb, Consume)]\<rparr>))
       = (released w @ [(skb_id skb, Consume)]) @ ys"
      by auto
    then show ?thesis using Inr by (simp add: efx_tx_tso_fallback.simps)
  qed
next
  case (3 e w)
  then show ?case by simp
next
  case (4 e skb "next" w)
  from "4.IH"(1) obtain ys where a: "released (snd (efx_enqueue_skb e skb w)) = released w @ ys"
    by blast
  from "4.IH"(2) obtain zs where
    "released (efx_enqueue_segments e next (snd (efx_enqueue_skb e skb w)))
     = released (snd (efx_enqueue_skb e skb w)) @ zs"
    by blast
  with a show ?case by simp
next
  case (5 e skb w)
  from "5.IH" [OF refl] obtain ys where
    a: "released (outcome_world (efx_enqueue_skb_place e skb w)) = released w @ ys"
    by blast
  then show ?case
    by (subst efx_enqueue_skb.simps)
       (auto simp add: Let_def outcome_world_def efx_enqueue_skb_err_result
          efx_enqueue_skb_sent_result split: outcome.splits)
qed


lemma efx_enqueue_skb_copy_frame2:
  "efx_enqueue_skb_copy e q skb = (rc, q') \<Longrightarrow> tso_fallbacks q' = tso_fallbacks q"
  using efx_enqueue_skb_copy_frame [of e q skb] by simp

lemma efx_enqueue_skb_nontso_tso_fallbacks:
  assumes "tso_segments skb = 0"
  shows "tso_fallbacks (txq1 (snd (efx_enqueue_skb e skb w))) = tso_fallbacks (txq1 w)"
  by (subst efx_enqueue_skb.simps)
     (auto simp add: efx_enqueue_skb_place_nontso [OF assms] Let_def
        efx_enqueue_skb_sent_result efx_enqueue_skb_err_result efx_enqueue_unwind_frame
        efx_enqueue_skb_pio_result append_descs_frame
        split: prod.split dest: efx_enqueue_skb_copy_frame2)

lemma efx_enqueue_segments_nontso_tso_fallbacks:
  "\<forall>s\<in>set segs. tso_segments s = 0 \<Longrightarrow>
   tso_fallbacks (txq1 (efx_enqueue_segments e segs w)) = tso_fallbacks (txq1 w)"
  by (induction segs arbitrary: w) (simp_all add: efx_enqueue_skb_nontso_tso_fallbacks)

lemma efx_enqueue_skb_place_tso:
  assumes "tso_segments skb \<noteq> 0" and "handle_tso e w skb = (rc, dm, ds)"
  shows "efx_enqueue_skb_place e skb w =
     (if rc = - EINVAL then
        (case gso_segment skb of
           Inl err \<Rightarrow>
             if err = 0 then Return0 (tso_fallbacks_incr (tso_handled skb ds w))
             else GotoErr (tso_fallbacks_incr (tso_handled skb ds w))
         | Inr segs \<Rightarrow>
             Return0 (tso_fallbacks_incr
               (efx_enqueue_segments e segs
                  ((tso_handled skb ds w)
                     \<lparr>released := released w @ [(skb_id skb, Consume)]\<rparr>))))
      else if rc \<noteq> 0 then GotoErr (tso_handled skb ds w)
      else efx_enqueue_skb_map e skb (tso_segments skb) dm (tso_handled skb ds w))"
  using assms
  by (subst efx_enqueue_skb_place.simps)
     (simp add: Let_def efx_tx_tso_fallback.simps tso_handled_def tso_fallbacks_incr_def
        split: sum.split)

text \<open>
  C5. For a packet that uses TSO (offload-flagged, more than one segment) whose
  handler answers -EINVAL: if skb_gso_segment yields segments, the call
  releases the original packet (dev_consume_skb_any), submits every segment
  in order through efx_enqueue_skb, counts the fallback and returns 0; the
  counter \<open>tso_fallbacks\<close> ends exactly one higher when the segments are
  ordinary packets that do not use TSO themselves. If the segmentation fails,
  the fallback is counted once as well and the call goes through label \<open>err\<close>.
  For any other nonzero answer of the handler the call goes through label
  \<open>err\<close> (unwind, release) and the counter is unchanged.
\<close>

theorem efx_enqueue_skb_tso_fallback:
  "(tso_segments skb \<noteq> 0 \<and> handle_tso e w skb = (- EINVAL, dm, ds)
      \<and> gso_segment skb = Inr segs
    \<longrightarrow> efx_enqueue_skb e skb w
          = (0, tso_fallbacks_incr
                  (foldl (\<lambda>w s. snd (efx_enqueue_skb e s w))
                     ((tso_handled skb ds w)
                        \<lparr>released := released w @ [(skb_id skb, Consume)]\<rparr>) segs))
        \<and> (skb_id skb, Consume) \<in> set (released (snd (efx_enqueue_skb e skb w)))
        \<and> ((\<forall>s\<in>set segs. tso_segments s = 0)
            \<longrightarrow> tso_fallbacks (txq1 (snd (efx_enqueue_skb e skb w)))
                = tso_fallbacks (txq1 w) + 1))
   \<and> (tso_segments skb \<noteq> 0 \<and> handle_tso e w skb = (- EINVAL, dm, ds)
      \<and> gso_segment skb = Inl err \<and> err \<noteq> 0
    \<longrightarrow> efx_enqueue_skb e skb w
          = efx_enqueue_skb_err e skb (insert_count (txq1 w))
              (tso_fallbacks_incr (tso_handled skb ds w))
        \<and> tso_fallbacks (txq1 (snd (efx_enqueue_skb e skb w)))
          = tso_fallbacks (txq1 w) + 1)
   \<and> (tso_segments skb \<noteq> 0 \<and> handle_tso e w skb = (rc, dm, ds)
      \<and> rc \<noteq> 0 \<and> rc \<noteq> - EINVAL
    \<longrightarrow> efx_enqueue_skb e skb w
          = efx_enqueue_skb_err e skb (insert_count (txq1 w)) (tso_handled skb ds w)
        \<and> tso_fallbacks (txq1 (snd (efx_enqueue_skb e skb w))) = tso_fallbacks (txq1 w))"
proof (intro conjI impI)
  assume h: "tso_segments skb \<noteq> 0 \<and> handle_tso e w skb = (- EINVAL, dm, ds)
      \<and> gso_segment skb = Inr segs"
  define w1 where "w1 = (tso_handled skb ds w)
                        \<lparr>released := released w @ [(skb_id skb, Consume)]\<rparr>"
  have pl: "efx_enqueue_skb_place e skb w
            = Return0 (tso_fallbacks_incr (efx_enqueue_segments e segs w1))"
    using h by (simp add: efx_enqueue_skb_place_tso w1_def)
  show eq: "efx_enqueue_skb e skb w
          = (0, tso_fallbacks_incr
                  (foldl (\<lambda>w s. snd (efx_enqueue_skb e s w))
                     ((tso_handled skb ds w)
                        \<lparr>released := released w @ [(skb_id skb, Consume)]\<rparr>) segs))"
    by (subst efx_enqueue_skb.simps)
       (simp add: pl Let_def efx_enqueue_segments_foldl w1_def)
  have eq2: "snd (efx_enqueue_skb e skb w)
             = tso_fallbacks_incr (efx_enqueue_segments e segs w1)"
    by (simp add: eq efx_enqueue_segments_foldl w1_def)
  obtain ys where "released (efx_enqueue_segments e segs w1) = released w1 @ ys"
    using released_grows(3) by blast
  then show "(skb_id skb, Consume) \<in> set (released (snd (efx_enqueue_skb e skb w)))"
    by (simp add: eq2 tso_fallbacks_incr_def w1_def)
  assume "\<forall>s\<in>set segs. tso_segments s = 0"
  then show "tso_fallbacks (txq1 (snd (efx_enqueue_skb e skb w))) = tso_fallbacks (txq1 w) + 1"
    by (simp add: eq2 tso_fallbacks_incr_def efx_enqueue_segments_nontso_tso_fallbacks
        w1_def tso_handled_def append_descs_frame)
next
  assume h: "tso_segments skb \<noteq> 0 \<and> handle_tso e w skb = (- EINVAL, dm, ds)
      \<and> gso_segment skb = Inl err \<and> err \<noteq> 0"
  have pl: "efx_enqueue_skb_place e skb w
            = GotoErr (tso_fallbacks_incr (tso_handled skb ds w))"
    using h by (simp add: efx_enqueue_skb_place_tso)
  show eq: "efx_enqueue_skb e skb w
          = efx_enqueue_skb_err e skb (insert_count (txq1 w))
              (tso_fallbacks_incr (tso_handled skb ds w))"
    by (subst efx_enqueue_skb.simps) (simp add: pl Let_def)
  show "tso_fallbacks (txq1 (snd (efx_enqueue_skb e skb w))) = tso_fallbacks (txq1 w) + 1"
    by (simp add: eq efx_enqueue_skb_err_result efx_enqueue_unwind_frame
        tso_fallbacks_incr_def tso_handled_def append_descs_frame)
next
  assume h: "tso_segments skb \<noteq> 0 \<and> handle_tso e w skb = (rc, dm, ds)
      \<and> rc \<noteq> 0 \<and> rc \<noteq> - EINVAL"
  have pl: "efx_enqueue_skb_place e skb w = GotoErr (tso_handled skb ds w)"
    using h by (simp add: efx_enqueue_skb_place_tso)
  show eq: "efx_enqueue_skb e skb w
          = efx_enqueue_skb_err e skb (insert_count (txq1 w)) (tso_handled skb ds w)"
    by (subst efx_enqueue_skb.simps) (simp add: pl Let_def)
  show "tso_fallbacks (txq1 (snd (efx_enqueue_skb e skb w))) = tso_fallbacks (txq1 w)"
    by (simp add: eq efx_enqueue_skb_err_result efx_enqueue_unwind_frame
        tso_handled_def append_descs_frame)
qed

subsection \<open>Failed submissions\<close>

lemma efx_enqueue_skb_place_err_iff:
  "(\<exists>w1. efx_enqueue_skb_place e skb w = GotoErr w1) \<longleftrightarrow> placement_fails e skb w"
proof (cases "tso_segments skb = 0")
  case True
  then show ?thesis
    by (auto simp add: efx_enqueue_skb_place_nontso placement_fails_def split: prod.splits)
next
  case False
  obtain rc dm ds where h: "handle_tso e w skb = (rc, dm, ds)"
    by (cases "handle_tso e w skb") auto
  show ?thesis
    using False
    by (auto simp add: efx_enqueue_skb_place_tso [OF False h] placement_fails_def h
        efx_enqueue_skb_map_def Let_def split: sum.splits prod.splits if_splits)
qed


text \<open>
  C2. When a placement stage of efx_enqueue_skb fails (the TSO handler answers
  an error other than -EINVAL, or the segmentation of the software fallback
  fails, or the copy or a DMA mapping returns nonzero; efx_enqueue_skb_pio
  cannot fail and a -EINVAL that the fallback recovers is no failure), the
  call reaches label \<open>err\<close> in some state \<open>w1\<close>, returns NETDEV_TX_OK, leaves
  \<open>insert_count\<close> at its value on entry, leaves every slot between the insert
  position on entry and the one at the failure clear (no mapping obligation,
  flags cleared), and releases the packet by dev_kfree_skb_any. The unwinding
  is efx_enqueue_unwind as the spec words it.
\<close>

theorem efx_enqueue_skb_unwinds:
  assumes "placement_fails e skb w"
  shows "\<exists>w1. efx_enqueue_skb_place e skb w = GotoErr w1
    \<and> fst (efx_enqueue_skb e skb w) = NETDEV_TX_OK
    \<and> insert_count (txq1 (snd (efx_enqueue_skb e skb w))) = insert_count (txq1 w)
    \<and> (\<forall>j < unat (insert_count (txq1 w1) - insert_count (txq1 w)).
          slot_clear (buffer (txq1 (snd (efx_enqueue_skb e skb w)))
            ((insert_count (txq1 w) + of_nat j)
               AND ptr_mask (txq1 (snd (efx_enqueue_skb e skb w))))))
    \<and> released (snd (efx_enqueue_skb e skb w)) = released w1 @ [(skb_id skb, Kfree)]"
proof -
  from assms obtain w1 where h: "efx_enqueue_skb_place e skb w = GotoErr w1"
    using efx_enqueue_skb_place_err_iff by blast
  from efx_enqueue_skb_goto_err [OF h] h show ?thesis by blast
qed

subsection \<open>Raw frames\<close>

lemma ring_slots_distinct:
  fixes x :: u32
  assumes a: "a < 2 ^ m" and b: "b < 2 ^ m" and ne: "a \<noteq> b" and m: "m \<le> 32"
  shows "(x + of_nat a) AND mask m \<noteq> (x + of_nat b) AND mask m"
proof
  assume eq: "(x + of_nat a) AND mask m = (x + of_nat b) AND mask m"
  have pow: "(2::nat) ^ m \<le> 2 ^ 32"
    using m power_increasing [of m 32 "2::nat"] by simp
  have ua: "uint (of_nat a :: u32) = int a"
    using a pow by (simp add: uint_nat unat_of_nat)
  have ub: "uint (of_nat b :: u32) = int b"
    using b pow by (simp add: uint_nat unat_of_nat)
  from eq have "take_bit m (x + of_nat a) = take_bit m (x + of_nat b)"
    by (simp add: take_bit_eq_mask)
  then have "uint (take_bit m (x + of_nat a)) = uint (take_bit m (x + of_nat b))"
    by simp
  then have "take_bit m (uint (x + of_nat a)) = take_bit m (uint (x + of_nat b))"
    by (simp only: unsigned_take_bit_eq)
  then have "take_bit m (take_bit 32 (uint x + int a)) = take_bit m (take_bit 32 (uint x + int b))"
    by (simp add: uint_word_ariths ua ub take_bit_eq_mod)
  then have e2: "take_bit m (uint x + int a) = take_bit m (uint x + int b)"
    using m by (simp add: take_bit_take_bit min_def)
  have "take_bit m (int a) = take_bit m ((uint x + int a) - uint x)" by simp
  also have "\<dots> = take_bit m (take_bit m (uint x + int a) - take_bit m (uint x))"
    by (simp only: take_bit_diff)
  also have "\<dots> = take_bit m (take_bit m (uint x + int b) - take_bit m (uint x))"
    by (simp only: e2)
  also have "\<dots> = take_bit m ((uint x + int b) - uint x)"
    by (simp only: take_bit_diff)
  finally have "take_bit m (int a) = take_bit m (int b)" by simp
  then have "int a = int b"
    using a b by (simp add: take_bit_int_eq_self)
  with ne show False by simp
qed

lemma efx_xdp_queue_frame_fields:
  "insert_count (efx_xdp_queue_frame q f d) = insert_count q + 1"
  "tx_packets (efx_xdp_queue_frame q f d) = tx_packets q + 1"
  "ptr_mask (efx_xdp_queue_frame q f d) = ptr_mask q"
  "read_count (efx_xdp_queue_frame q f d) = read_count q"
  "raw_frame_slot (buffer (efx_xdp_queue_frame q f d) (insert_count q AND ptr_mask q)) f"
  "i \<noteq> insert_count q AND ptr_mask q \<Longrightarrow>
     buffer (efx_xdp_queue_frame q f d) i = buffer q i"
  by (simp_all add: efx_xdp_queue_frame_def efx_tx_map_chunk_def Let_def
      efx_tx_queue_get_insert_index_def raw_frame_slot_def)

lemma efx_xdp_queue_frames_counts:
  "\<forall>j<k. dma_map_single e (fs (a + j)) \<noteq> None \<Longrightarrow>
   insert_count (efx_xdp_queue_frames e fs a k q) = insert_count q + of_nat k
   \<and> tx_packets (efx_xdp_queue_frames e fs a k q) = tx_packets q + of_nat k
   \<and> ptr_mask (efx_xdp_queue_frames e fs a k q) = ptr_mask q
   \<and> read_count (efx_xdp_queue_frames e fs a k q) = read_count q"
proof (induction k arbitrary: a q)
  case 0
  then show ?case by simp
next
  case (Suc k)
  from Suc.prems have "dma_map_single e (fs (a + 0)) \<noteq> None" by blast
  then obtain d where d: "dma_map_single e (fs a) = Some d" by auto
  have "\<forall>j<k. dma_map_single e (fs (Suc a + j)) \<noteq> None"
    using Suc.prems by auto
  from Suc.IH [OF this, of "efx_xdp_queue_frame q (fs a) d"]
  show ?case by (simp add: d efx_xdp_queue_frame_fields)
qed

lemma efx_xdp_queue_frames_untouched:
  "\<forall>j<k. i \<noteq> (insert_count q + of_nat j) AND ptr_mask q \<Longrightarrow>
   buffer (efx_xdp_queue_frames e fs a k q) i = buffer q i"
proof (induction k arbitrary: a q)
  case 0
  then show ?case by simp
next
  case (Suc k)
  show ?case
  proof (cases "dma_map_single e (fs a)")
    case None
    then show ?thesis by simp
  next
    case (Some d)
    define q1 where "q1 = efx_xdp_queue_frame q (fs a) d"
    have i0: "i \<noteq> insert_count q AND ptr_mask q"
      using Suc.prems [rule_format, of 0] by simp
    have "\<forall>j<k. i \<noteq> (insert_count q1 + of_nat j) AND ptr_mask q1"
    proof (intro allI impI)
      fix j assume "j < k"
      then have "i \<noteq> (insert_count q + of_nat (Suc j)) AND ptr_mask q"
        using Suc.prems by auto
      then show "i \<noteq> (insert_count q1 + of_nat j) AND ptr_mask q1"
        by (simp add: q1_def efx_xdp_queue_frame_fields add.assoc)
    qed
    from Suc.IH [OF this] have "buffer (efx_xdp_queue_frames e fs (Suc a) k q1) i = buffer q1 i" .
    then show ?thesis
      using i0 by (simp add: Some q1_def efx_xdp_queue_frame_fields)
  qed
qed

lemma efx_xdp_queue_frames_slots:
  assumes "\<forall>j<k. dma_map_single e (fs (a + j)) \<noteq> None"
    and "ptr_mask q = mask m" and "m \<le> 32" and "k \<le> 2 ^ m" and "j < k"
  shows "raw_frame_slot
           (buffer (efx_xdp_queue_frames e fs a k q)
              ((insert_count q + of_nat j) AND ptr_mask q)) (fs (a + j))"
  using assms
proof (induction k arbitrary: a q j)
  case 0
  then show ?case by simp
next
  case (Suc k)
  from Suc.prems(1) have "dma_map_single e (fs (a + 0)) \<noteq> None" by blast
  then obtain d where d: "dma_map_single e (fs a) = Some d" by auto
  define q1 where "q1 = efx_xdp_queue_frame q (fs a) d"
  have m1: "ptr_mask q1 = mask m" and ic1: "insert_count q1 = insert_count q + 1"
    using Suc.prems(2) by (simp_all add: q1_def efx_xdp_queue_frame_fields)
  have st: "efx_xdp_queue_frames e fs a (Suc k) q = efx_xdp_queue_frames e fs (Suc a) k q1"
    by (simp add: d q1_def)
  have rest: "\<forall>j<k. dma_map_single e (fs (Suc a + j)) \<noteq> None"
    using Suc.prems(1) by auto
  show ?case
  proof (cases j)
    case 0
    have "\<forall>i<k. insert_count q AND ptr_mask q \<noteq> (insert_count q1 + of_nat i) AND ptr_mask q1"
    proof (intro allI impI)
      fix i assume i: "i < k"
      have "(insert_count q + of_nat 0) AND mask m \<noteq> (insert_count q + of_nat (Suc i)) AND mask m"
        using i Suc.prems(3,4) by (intro ring_slots_distinct) auto
      then show "insert_count q AND ptr_mask q \<noteq> (insert_count q1 + of_nat i) AND ptr_mask q1"
        by (simp add: m1 ic1 Suc.prems(2) add.assoc)
    qed
    from efx_xdp_queue_frames_untouched [OF this]
    have "buffer (efx_xdp_queue_frames e fs (Suc a) k q1) (insert_count q AND ptr_mask q)
          = buffer q1 (insert_count q AND ptr_mask q)" .
    then show ?thesis
      unfolding st using 0 by (simp add: q1_def efx_xdp_queue_frame_fields)
  next
    case (Suc j')
    from Suc.prems(4) have k: "k \<le> 2 ^ m" by simp
    from Suc.prems(5) Suc have j': "j' < k" by simp
    from Suc.IH [OF rest m1 Suc.prems(3) k j']
    show ?thesis
      unfolding st by (simp add: Suc ic1 m1 Suc.prems(2) add.assoc)
  qed
qed

lemma efx_xdp_tx_loop_run:
  "\<forall>j<k. dma_map_single e (fs (a + j)) \<noteq> None \<Longrightarrow> int (a + k) \<le> n \<Longrightarrow>
   int (a + k) \<le> space \<Longrightarrow>
   efx_xdp_tx_loop e space n fs (int a) q
   = efx_xdp_tx_loop e space n fs (int (a + k)) (efx_xdp_queue_frames e fs a k q)"
proof (induction k arbitrary: a q)
  case 0
  then show ?case by simp
next
  case (Suc k)
  from Suc.prems(1) have "dma_map_single e (fs (a + 0)) \<noteq> None" by blast
  then obtain d where d: "dma_map_single e (fs a) = Some d" by auto
  have rest: "\<forall>j<k. dma_map_single e (fs (Suc a + j)) \<noteq> None"
    using Suc.prems(1) by auto
  have "efx_xdp_tx_loop e space n fs (int a) q
        = efx_xdp_tx_loop e space n fs (int a + 1) (efx_xdp_queue_frame q (fs a) d)"
    using Suc.prems(2,3) d by (subst efx_xdp_tx_loop.simps) simp
  also have "int a + 1 = int (Suc a)" by simp
  also have "efx_xdp_tx_loop e space n fs (int (Suc a)) (efx_xdp_queue_frame q (fs a) d)
        = efx_xdp_tx_loop e space n fs (int (Suc a + k))
            (efx_xdp_queue_frames e fs (Suc a) k (efx_xdp_queue_frame q (fs a) d))"
    using Suc.prems(2,3) by (intro Suc.IH [OF rest]) simp_all
  finally show ?case by (simp add: d)
qed

lemma efx_xdp_tx_loop_stop:
  "\<not> int a < n \<or> space \<le> int a \<or> dma_map_single e (fs a) = None \<Longrightarrow>
   efx_xdp_tx_loop e space n fs (int a) q = (int a, q)"
  by (subst efx_xdp_tx_loop.simps) (auto simp add: Let_def)

lemma efx_xdp_tx_loop_result:
  assumes "\<forall>j<k. dma_map_single e (fs j) \<noteq> None" and "int k \<le> n" and "int k \<le> space"
    and "\<not> int k < n \<or> space \<le> int k \<or> dma_map_single e (fs k) = None"
  shows "efx_xdp_tx_loop e space n fs 0 q = (int k, efx_xdp_queue_frames e fs 0 k q)"
proof -
  have "efx_xdp_tx_loop e space n fs (int 0) q
        = efx_xdp_tx_loop e space n fs (int (0 + k)) (efx_xdp_queue_frames e fs 0 k q)"
    using assms(1,2,3) by (intro efx_xdp_tx_loop_run) simp_all
  also have "\<dots> = (int k, efx_xdp_queue_frames e fs 0 k q)"
    using efx_xdp_tx_loop_stop [of k n space e fs, OF assms(4)] by simp
  finally show ?thesis by simp
qed

lemma efx_xdp_tx_buffers_result:
  assumes "xdp_bound cpu w q" and "n \<noteq> 0"
    and "efx_xdp_tx_loop e (xdp_space w q) n fs 0 q = (int k, q')"
  shows "efx_xdp_tx_buffers e cpu n (Some fs) flush w =
     (let w1 = w\<lparr>efx := (efx w)\<lparr>xdp_tx_queues := (xdp_tx_queues (efx w))(cpu \<mapsto> q')\<rparr>\<rparr>;
          w2 = (if flush \<and> 0 < k then efx_nic_push_buffers 0 w1 else w1)
      in if k = 0 then (- EIO, w2)
         else (int k, efx_xdp_return_frames (n - int k) (\<lambda>j. fs (k + j)) w2))"
proof -
  from assms(1) have b: "xdp_tx_queue_count (efx w) \<noteq> 0"
    "\<not> xdp_tx_queue_count (efx w) \<le> cpu" "xdp_tx_queues (efx w) cpu = Some q"
    by (simp_all add: xdp_bound_def not_le)
  show ?thesis
    using b assms(2,3)
    by (simp add: efx_xdp_tx_buffers_def xdp_space_def Let_def)
qed


lemma efx_xdp_tx_loop_progress:
  "efx_xdp_tx_loop e space n fs i q = (i', q') \<Longrightarrow> i \<le> i' \<and> (i' = i \<longrightarrow> q' = q)"
proof (induction e space n fs i q rule: efx_xdp_tx_loop.induct)
  case (1 e space n xdpfs i q)
  show ?case
  proof (cases "i < n \<and> \<not> space \<le> i \<and> dma_map_single e (xdpfs (nat i)) \<noteq> None")
    case True
    then obtain d where d: "dma_map_single e (xdpfs (nat i)) = Some d" by auto
    have "efx_xdp_tx_loop e space n xdpfs (i + 1) (efx_xdp_queue_frame q (xdpfs (nat i)) d)
          = (i', q')"
      using "1.prems" True d by (subst (asm) efx_xdp_tx_loop.simps) (simp add: Let_def)
    from "1.IH" [OF _ refl _ d this] True have "i + 1 \<le> i'" by simp
    then show ?thesis by simp
  next
    case False
    then have "efx_xdp_tx_loop e space n xdpfs i q = (i, q)"
      by (subst efx_xdp_tx_loop.simps) (auto simp add: Let_def)
    with "1.prems" show ?thesis by simp
  qed
qed

lemma efx_xdp_tx_loop_none_queued:
  "fst (efx_xdp_tx_loop e space n fs 0 q) = 0
   \<longleftrightarrow> n \<le> 0 \<or> space \<le> 0 \<or> dma_map_single e (fs 0) = None"
proof (cases "n \<le> 0 \<or> space \<le> 0 \<or> dma_map_single e (fs 0) = None")
  case True
  then have "efx_xdp_tx_loop e space n fs 0 q = (0, q)"
    by (subst efx_xdp_tx_loop.simps) (auto simp add: Let_def)
  with True show ?thesis by simp
next
  case False
  then obtain d where d: "dma_map_single e (fs 0) = Some d" by auto
  have st: "efx_xdp_tx_loop e space n fs 0 q
        = efx_xdp_tx_loop e space n fs 1 (efx_xdp_queue_frame q (fs 0) d)"
    using False d by (subst efx_xdp_tx_loop.simps) (simp add: Let_def)
  obtain i' q' where r: "efx_xdp_tx_loop e space n fs 1 (efx_xdp_queue_frame q (fs 0) d) = (i', q')"
    by (cases "efx_xdp_tx_loop e space n fs 1 (efx_xdp_queue_frame q (fs 0) d)") auto
  from efx_xdp_tx_loop_progress [OF r] have "1 \<le> i'" by simp
  with False st r show ?thesis by simp
qed

lemma returned_upt:
  "map (\<lambda>j. xdpf_id (fs (k + j))) [0..<nat (n - int k)]
   = map (\<lambda>j. xdpf_id (fs j)) [k..<nat n]"
proof -
  have "[k..<nat n] = map (\<lambda>j. j + k) [0..<nat n - k]"
    by (cases "k \<le> nat n") (simp_all add: map_add_upt)
  moreover have "nat (n - int k) = nat n - k" by simp
  ultimately show ?thesis by (simp add: comp_def add.commute)
qed

lemma efx_xdp_tx_buffers_stop_at:
  assumes b: "xdp_bound cpu w q" and k0: "0 < k" and kn: "int k \<le> n"
    and ks: "int k \<le> xdp_space w q"
    and maps: "\<forall>j<k. dma_map_single e (fs j) \<noteq> None"
    and stop: "\<not> int k < n \<or> xdp_space w q \<le> int k \<or> dma_map_single e (fs k) = None"
  shows "efx_xdp_tx_buffers e cpu n (Some fs) flush w =
     (int k,
      (if flush then efx_nic_push_buffers 0 else id)
        (w\<lparr>efx := (efx w)\<lparr>xdp_tx_queues :=
              (xdp_tx_queues (efx w))(cpu \<mapsto> efx_xdp_queue_frames e fs 0 k q)\<rparr>\<rparr>)
      \<lparr>returned_frames := returned_frames w @ map (\<lambda>j. xdpf_id (fs j)) [k..<nat n]\<rparr>)"
proof -
  have n0: "n \<noteq> 0" using k0 kn by auto
  have l: "efx_xdp_tx_loop e (xdp_space w q) n fs 0 q
           = (int k, efx_xdp_queue_frames e fs 0 k q)"
    using maps kn ks stop by (rule efx_xdp_tx_loop_result)
  show ?thesis
    using k0
    by (simp add: efx_xdp_tx_buffers_result [OF b n0 l] Let_def efx_xdp_return_frames_def
        returned_upt efx_nic_push_buffers_def)
qed

text \<open>
  C6, amended. With a queue bound to the CPU, available space \<open>s\<close> with
  \<open>0 < s < n\<close> and \<open>n\<close> frames that all map, efx_xdp_tx_buffers returns \<open>s\<close>,
  gives the frames \<open>0, \<dots>, s - 1\<close> one descriptor each (\<open>insert_count\<close> and
  \<open>tx_packets\<close> grow by \<open>s\<close>; in a ring of \<open>2 ^ m \<ge> s\<close> slots the slot of
  frame \<open>j\<close> carries the frame, the flags EFX_TX_BUF_XDP and
  EFX_TX_BUF_MAP_SINGLE and its length as \<open>unmap_len\<close>), returns the frames
  \<open>s, \<dots>, n - 1\<close> through efx_xdp_return_frames in order, and rings the
  doorbell once if \<open>flush\<close> is set.
\<close>

theorem efx_xdp_tx_buffers_fills_space:
  assumes "xdp_bound cpu w q" and "xdp_space w q = int s" and "0 < s" and "int s < n"
    and "\<forall>j<nat n. dma_map_single e (fs j) \<noteq> None"
  shows "fst (efx_xdp_tx_buffers e cpu n (Some fs) flush w) = int s
    \<and> returned_frames (snd (efx_xdp_tx_buffers e cpu n (Some fs) flush w))
        = returned_frames w @ map (\<lambda>j. xdpf_id (fs j)) [s..<nat n]
    \<and> xdp_tx_queues (efx (snd (efx_xdp_tx_buffers e cpu n (Some fs) flush w))) cpu
        = Some (efx_xdp_queue_frames e fs 0 s q)
    \<and> insert_count (efx_xdp_queue_frames e fs 0 s q) = insert_count q + of_nat s
    \<and> tx_packets (efx_xdp_queue_frames e fs 0 s q) = tx_packets q + of_nat s
    \<and> (ptr_mask q = mask m \<and> m \<le> 32 \<and> s \<le> 2 ^ m \<longrightarrow>
         (\<forall>j < s. raw_frame_slot
                  (buffer (efx_xdp_queue_frames e fs 0 s q)
                     ((insert_count q + of_nat j) AND ptr_mask q)) (fs j)))
    \<and> pushes (snd (efx_xdp_tx_buffers e cpu n (Some fs) flush w))
        = pushes w @ (if flush then [0] else [])"
proof -
  have maps: "\<forall>j < s. dma_map_single e (fs (0 + j)) \<noteq> None"
    using assms(4,5) by auto
  then have maps': "\<forall>j < s. dma_map_single e (fs j) \<noteq> None" by simp
  have eq: "efx_xdp_tx_buffers e cpu n (Some fs) flush w =
     (int s,
      (if flush then efx_nic_push_buffers 0 else id)
        (w\<lparr>efx := (efx w)\<lparr>xdp_tx_queues :=
              (xdp_tx_queues (efx w))(cpu \<mapsto> efx_xdp_queue_frames e fs 0 s q)\<rparr>\<rparr>)
      \<lparr>returned_frames := returned_frames w @ map (\<lambda>j. xdpf_id (fs j)) [s..<nat n]\<rparr>)"
    using assms(1,3,4) maps' by (intro efx_xdp_tx_buffers_stop_at) (simp_all add: assms(2))
  have slots: "\<forall>j < s. raw_frame_slot
                  (buffer (efx_xdp_queue_frames e fs 0 s q)
                     ((insert_count q + of_nat j) AND ptr_mask q)) (fs j)"
    if "ptr_mask q = mask m \<and> m \<le> 32 \<and> s \<le> 2 ^ m"
    using efx_xdp_queue_frames_slots [OF maps, of q m] that by simp
  show ?thesis
    unfolding eq using efx_xdp_queue_frames_counts [OF maps, of q] slots
    by (simp add: efx_nic_push_buffers_def)
qed

text \<open>
  C7, amended. With a queue bound to the CPU, if the DMA mapping succeeds for
  the frames before position \<open>i\<close> and fails at \<open>i\<close>, where \<open>0 < i < n\<close> and
  \<open>i\<close> is below the available space, efx_xdp_tx_buffers returns \<open>i\<close>; the
  descriptors of the frames \<open>0, \<dots>, i - 1\<close> stay in the queue as they were
  written (nothing is unwound), and the frames \<open>i, \<dots>, n - 1\<close> are returned
  through efx_xdp_return_frames; no packet is released.
\<close>

theorem efx_xdp_tx_buffers_mapping_failure:
  assumes "xdp_bound cpu w q" and "0 < i" and "int i < n" and "int i < xdp_space w q"
    and "\<forall>j<i. dma_map_single e (fs j) \<noteq> None" and "dma_map_single e (fs i) = None"
  shows "fst (efx_xdp_tx_buffers e cpu n (Some fs) flush w) = int i
    \<and> xdp_tx_queues (efx (snd (efx_xdp_tx_buffers e cpu n (Some fs) flush w))) cpu
        = Some (efx_xdp_queue_frames e fs 0 i q)
    \<and> insert_count (efx_xdp_queue_frames e fs 0 i q) = insert_count q + of_nat i
    \<and> tx_packets (efx_xdp_queue_frames e fs 0 i q) = tx_packets q + of_nat i
    \<and> (ptr_mask q = mask m \<and> m \<le> 32 \<and> i \<le> 2 ^ m \<longrightarrow>
         (\<forall>j<i. raw_frame_slot
                  (buffer (efx_xdp_queue_frames e fs 0 i q)
                     ((insert_count q + of_nat j) AND ptr_mask q)) (fs j)))
    \<and> returned_frames (snd (efx_xdp_tx_buffers e cpu n (Some fs) flush w))
        = returned_frames w @ map (\<lambda>j. xdpf_id (fs j)) [i..<nat n]
    \<and> released (snd (efx_xdp_tx_buffers e cpu n (Some fs) flush w)) = released w"
proof -
  have maps: "\<forall>j<i. dma_map_single e (fs (0 + j)) \<noteq> None"
    using assms(5) by simp
  have eq: "efx_xdp_tx_buffers e cpu n (Some fs) flush w =
     (int i,
      (if flush then efx_nic_push_buffers 0 else id)
        (w\<lparr>efx := (efx w)\<lparr>xdp_tx_queues :=
              (xdp_tx_queues (efx w))(cpu \<mapsto> efx_xdp_queue_frames e fs 0 i q)\<rparr>\<rparr>)
      \<lparr>returned_frames := returned_frames w @ map (\<lambda>j. xdpf_id (fs j)) [i..<nat n]\<rparr>)"
    using assms by (intro efx_xdp_tx_buffers_stop_at) simp_all
  have slots: "\<forall>j<i. raw_frame_slot
                  (buffer (efx_xdp_queue_frames e fs 0 i q)
                     ((insert_count q + of_nat j) AND ptr_mask q)) (fs j)"
    if "ptr_mask q = mask m \<and> m \<le> 32 \<and> i \<le> 2 ^ m"
    using efx_xdp_queue_frames_slots [OF maps, of q m] that by simp
  show ?thesis
    unfolding eq using efx_xdp_queue_frames_counts [OF maps, of q] slots
    by (simp add: efx_nic_push_buffers_def)
qed

text \<open>
  C8. efx_xdp_tx_buffers returns -EINVAL and leaves the state as it was when
  no queue is bound to the CPU (no XDP queues, a CPU number beyond their
  count, or a NULL entry) and when the frame count is not zero and the array
  is NULL. Past these checks, with a nonzero count, it returns -EIO when the
  loop queues no frame; the state is unchanged then as well.
\<close>

theorem efx_xdp_tx_buffers_errors:
  "((xdp_tx_queue_count (efx w) = 0 \<or> xdp_tx_queue_count (efx w) \<le> cpu
       \<or> xdp_tx_queues (efx w) cpu = None)
     \<longrightarrow> efx_xdp_tx_buffers e cpu n xdpfs flush w = (- EINVAL, w))
   \<and> (n \<noteq> 0 \<longrightarrow> efx_xdp_tx_buffers e cpu n None flush w = (- EINVAL, w))
   \<and> (xdp_bound cpu w q \<and> n \<noteq> 0
        \<and> fst (efx_xdp_tx_loop e (xdp_space w q) n fs 0 q) = 0
     \<longrightarrow> efx_xdp_tx_buffers e cpu n (Some fs) flush w = (- EIO, w))"
proof (intro conjI impI)
  assume "xdp_tx_queue_count (efx w) = 0 \<or> xdp_tx_queue_count (efx w) \<le> cpu
       \<or> xdp_tx_queues (efx w) cpu = None"
  then show "efx_xdp_tx_buffers e cpu n xdpfs flush w = (- EINVAL, w)"
    by (auto simp add: efx_xdp_tx_buffers_def)
next
  assume "n \<noteq> 0"
  then show "efx_xdp_tx_buffers e cpu n None flush w = (- EINVAL, w)"
    by (simp add: efx_xdp_tx_buffers_def split: option.split)
next
  assume h: "xdp_bound cpu w q \<and> n \<noteq> 0
        \<and> fst (efx_xdp_tx_loop e (xdp_space w q) n fs 0 q) = 0"
  obtain q' where l: "efx_xdp_tx_loop e (xdp_space w q) n fs 0 q = (int 0, q')"
    using h by (cases "efx_xdp_tx_loop e (xdp_space w q) n fs 0 q") auto
  from efx_xdp_tx_loop_progress [of e "xdp_space w q" n fs 0 q 0 q'] l have q': "q' = q"
    by simp
  have same: "(xdp_tx_queues (efx w))(cpu \<mapsto> q) = xdp_tx_queues (efx w)"
    using h by (auto simp add: xdp_bound_def)
  from h have b: "xdp_bound cpu w q" and n0: "n \<noteq> 0" by simp_all
  show "efx_xdp_tx_buffers e cpu n (Some fs) flush w = (- EIO, w)"
    by (simp add: efx_xdp_tx_buffers_result [OF b n0 l] q' same)
qed

text \<open>
  C10. With a queue bound to the CPU and a frame count of zero,
  efx_xdp_tx_buffers returns 0 and the state is the one it was called in: no
  descriptor, no counter, no doorbell, whatever \<open>flush\<close> and the array are.
\<close>

theorem efx_xdp_tx_buffers_empty:
  assumes "xdp_bound cpu w q"
  shows "efx_xdp_tx_buffers e cpu 0 xdpfs flush w = (0, w)"
proof -
  from assms have "xdp_tx_queue_count (efx w) \<noteq> 0"
    "\<not> xdp_tx_queue_count (efx w) \<le> cpu" "xdp_tx_queues (efx w) cpu = Some q"
    by (simp_all add: xdp_bound_def not_le)
  then show ?thesis
    by (simp add: efx_xdp_tx_buffers_def)
qed


subsection \<open>Traffic classes\<close>

text \<open>
  C9. When the requested class count is below the device's, efx_setup_tc
  leaves every TX queue as it was (ring, \<open>initialised\<close>, core queue binding)
  and the channel count too, whatever it returns. A request that passes the
  checks changes the \<open>hw\<close> field of the request and the net device only:
  the map of the classes below the new count, \<open>num_tc\<close>, and what
  netif_set_real_num_tx_queues does to the device.
\<close>

theorem efx_setup_tc_decrease:
  assumes dec: "(ucast (qopt_num_tc (mqprio w)) :: u32) < scast (nd_num_tc (net_dev w))"
  shows "tx_queues (snd (efx_setup_tc e type w)) = tx_queues w
    \<and> n_tx_channels (snd (efx_setup_tc e type w)) = n_tx_channels w
    \<and> (type = TC_SETUP_QDISC_MQPRIO
         \<and> (ucast (qopt_num_tc (mqprio w)) :: u32) \<le> EFX_MAX_TX_TC e
       \<longrightarrow> efx_setup_tc e type w = efx_setup_tc_lowered e w)"
proof -
  from dec have ne: "(ucast (qopt_num_tc (mqprio w)) :: u32) \<noteq> scast (nd_num_tc (net_dev w))"
    and ng: "\<not> scast (nd_num_tc (net_dev w)) < (ucast (qopt_num_tc (mqprio w)) :: u32)"
    by auto
  have full: "efx_setup_tc e type w = efx_setup_tc_lowered e w"
    if "type = TC_SETUP_QDISC_MQPRIO"
      and "(ucast (qopt_num_tc (mqprio w)) :: u32) \<le> EFX_MAX_TX_TC e"
    using that ne ng
    by (simp add: efx_setup_tc_def efx_setup_tc_lowered_def Let_def not_less [symmetric]
        split: prod.split)
  have frame: "tx_queues (snd (efx_setup_tc_lowered e w)) = tx_queues w
    \<and> n_tx_channels (snd (efx_setup_tc_lowered e w)) = n_tx_channels w"
    by (simp add: efx_setup_tc_lowered_def Let_def split: prod.split)
  show ?thesis
  proof (cases "type = TC_SETUP_QDISC_MQPRIO
         \<and> (ucast (qopt_num_tc (mqprio w)) :: u32) \<le> EFX_MAX_TX_TC e")
    case True
    with full frame show ?thesis by simp
  next
    case False
    then have "efx_setup_tc e type w = (- EOPNOTSUPP, w) \<or> efx_setup_tc e type w = (- EINVAL, w)"
      by (auto simp add: efx_setup_tc_def Let_def not_le)
    with False show ?thesis by auto
  qed
qed

subsection \<open>Examples of the submission properties\<close>

lemma efx_enqueue_skb_place_c2:
  "efx_enqueue_skb_place env_c2 skb_c2 world0 = GotoErr world_c2"
  by (simp add: efx_enqueue_skb_place_nontso tso_segments_def pio_eligible_def
      env_c2_def env0_def skb_c2_def world_c2_def world0_def EIO_def)

theorem efx_enqueue_skb_unwinds_witness:
  "placement_fails env_c2 skb_c2 world0
   \<and> efx_enqueue_skb_place env_c2 skb_c2 world0 = GotoErr world_c2
   \<and> insert_count (txq1 world0) = 0
   \<and> insert_count (txq1 world_c2) = 2
   \<and> unmap_len (buffer (txq1 world_c2) 0) = 500
   \<and> unmap_len (buffer (txq1 world_c2) 1) = 500
   \<and> fst (efx_enqueue_skb env_c2 skb_c2 world0) = NETDEV_TX_OK
   \<and> insert_count (txq1 (snd (efx_enqueue_skb env_c2 skb_c2 world0))) = 0
   \<and> slot_clear (buffer (txq1 (snd (efx_enqueue_skb env_c2 skb_c2 world0))) 0)
   \<and> slot_clear (buffer (txq1 (snd (efx_enqueue_skb env_c2 skb_c2 world0))) 1)
   \<and> released (snd (efx_enqueue_skb env_c2 skb_c2 world0)) = [(7, Kfree)]"
proof -
  note h = efx_enqueue_skb_place_c2
  have pf: "placement_fails env_c2 skb_c2 world0"
    by (simp add: placement_fails_def tso_segments_def pio_eligible_def env_c2_def
        env0_def skb_c2_def EIO_def)
  have st: "insert_count (txq1 world0) = 0" "insert_count (txq1 world_c2) = 2"
    "unmap_len (buffer (txq1 world_c2) 0) = 500"
    "unmap_len (buffer (txq1 world_c2) 1) = 500"
    "released world_c2 = []" "ptr_mask (txq1 world_c2) = 7"
    by (simp_all add: world_c2_def world0_def queue0_def append_descs_def
        append_desc_def efx_tx_queue_get_insert_index_def desc_c2_def buffer0_def)
  have id7: "skb_id skb_c2 = 7"
    by (simp add: skb_c2_def)
  have pm: "ptr_mask (txq1 (snd (efx_enqueue_skb env_c2 skb_c2 world0))) = 7"
    by (subst efx_enqueue_skb.simps)
       (simp add: h Let_def efx_enqueue_skb_err_result efx_enqueue_unwind_frame st)
  from efx_enqueue_skb_unwinds [OF pf] obtain w1 where
    w1: "efx_enqueue_skb_place env_c2 skb_c2 world0 = GotoErr w1"
    and r0: "fst (efx_enqueue_skb env_c2 skb_c2 world0) = NETDEV_TX_OK"
      "insert_count (txq1 (snd (efx_enqueue_skb env_c2 skb_c2 world0)))
       = insert_count (txq1 world0)"
      "\<forall>j < unat (insert_count (txq1 w1) - insert_count (txq1 world0)).
          slot_clear (buffer (txq1 (snd (efx_enqueue_skb env_c2 skb_c2 world0)))
            ((insert_count (txq1 world0) + of_nat j)
               AND ptr_mask (txq1 (snd (efx_enqueue_skb env_c2 skb_c2 world0)))))"
      "released (snd (efx_enqueue_skb env_c2 skb_c2 world0))
       = released w1 @ [(skb_id skb_c2, Kfree)]"
    by blast
  from w1 h have eq: "w1 = world_c2" by simp
  have r: "insert_count (txq1 (snd (efx_enqueue_skb env_c2 skb_c2 world0))) = 0"
    "\<forall>j<2. slot_clear (buffer (txq1 (snd (efx_enqueue_skb env_c2 skb_c2 world0)))
              (of_nat j AND 7))"
    "released (snd (efx_enqueue_skb env_c2 skb_c2 world0)) = [(7, Kfree)]"
    using r0(2,3,4) by (simp_all add: eq st pm id7)
  have sl: "slot_clear (buffer (txq1 (snd (efx_enqueue_skb env_c2 skb_c2 world0))) 0)"
    "slot_clear (buffer (txq1 (snd (efx_enqueue_skb env_c2 skb_c2 world0))) 1)"
    using r(2) [rule_format, of 0] r(2) [rule_format, of 1] by simp_all
  from pf h st r0(1) r(1,3) sl show ?thesis by simp
qed

theorem efx_enqueue_skb_returns_ok_witness:
  "fst (efx_enqueue_skb env_c2 skb_c2 world0) = NETDEV_TX_OK
   \<and> fst (efx_enqueue_skb env_c2 skb_c2 world0) \<noteq> NETDEV_TX_BUSY
   \<and> fst (efx_enqueue_skb env0 skb_pio world0) = NETDEV_TX_OK"
  using efx_enqueue_skb_returns_ok [of env_c2 skb_c2 world0]
    efx_enqueue_skb_returns_ok [of env0 skb_pio world0]
  by simp

theorem efx_enqueue_skb_path_witness:
  "tso_segments skb_pio = 0 \<and> pio_eligible env0 skb_pio world0
   \<and> placements (snd (efx_enqueue_skb env0 skb_pio world0)) = [(1, PlacePIO)]
   \<and> insert_count (txq1 (snd (efx_enqueue_skb env0 skb_pio world0))) = 1
   \<and> pio_packets (txq1 (snd (efx_enqueue_skb env0 skb_pio world0))) = 1
   \<and> tso_segments skb_frag = 0 \<and> \<not> pio_eligible env_more skb_frag world0
   \<and> placements (snd (efx_enqueue_skb env_more skb_frag world0)) = [(2, PlaceCopy)]
   \<and> tso_segments skb_c2 = 0 \<and> \<not> pio_eligible env0 skb_c2 world0
   \<and> placements (snd (efx_enqueue_skb env0 skb_c2 world0)) = [(7, PlaceMapData)]"
proof -
  have a: "tso_segments skb_pio = 0" "tso_segments skb_frag = 0" "tso_segments skb_c2 = 0"
    by (simp_all add: tso_segments_def skb_pio_def skb_frag_def skb_c2_def)
  have b: "pio_eligible env0 skb_pio world0" "\<not> pio_eligible env_more skb_frag world0"
    "\<not> pio_eligible env0 skb_c2 world0"
    by (simp_all add: pio_eligible_def env_more_def env0_def skb_pio_def skb_frag_def
        skb_c2_def world0_def queue0_def)
  have c: "data_len skb_frag \<noteq> 0 \<and> skb_len skb_frag \<le> EFX_TX_CB_SIZE env_more"
    "\<not> (data_len skb_c2 \<noteq> 0 \<and> skb_len skb_c2 \<le> EFX_TX_CB_SIZE env0)"
    by (simp_all add: env_more_def env0_def skb_frag_def skb_c2_def)
  have d: "placements world0 = []" "insert_count (txq1 world0) = 0"
    "pio_packets (txq1 world0) = 0"
    by (simp_all add: world0_def queue0_def)
  from efx_enqueue_skb_path [OF a(1), of env0 world0]
    efx_enqueue_skb_path [OF a(2), of env_more world0]
    efx_enqueue_skb_path [OF a(3), of env0 world0]
  show ?thesis
    using a b c d by (simp add: skb_pio_def skb_frag_def skb_c2_def)
qed

theorem efx_enqueue_skb_tso_fallback_witness:
  "tso_segments skb_gso = 2
   \<and> handle_tso env_tso world0 skb_gso = (- EINVAL, False, [])
   \<and> gso_segment skb_gso = Inr [seg_a, seg_b]
   \<and> tso_segments seg_a = 0 \<and> tso_segments seg_b = 0
   \<and> fst (efx_enqueue_skb env_tso skb_gso world0) = 0
   \<and> (10, Consume) \<in> set (released (snd (efx_enqueue_skb env_tso skb_gso world0)))
   \<and> tso_fallbacks (txq1 world0) = 0
   \<and> tso_fallbacks (txq1 (snd (efx_enqueue_skb env_tso skb_gso world0))) = 1
   \<and> tso_segments skb_gso_bad = 2
   \<and> handle_tso env_tso world0 skb_gso_bad = (- EINVAL, False, [])
   \<and> gso_segment skb_gso_bad = Inl (- 12)
   \<and> released (snd (efx_enqueue_skb env_tso skb_gso_bad world0)) = [(13, Kfree)]
   \<and> tso_fallbacks (txq1 (snd (efx_enqueue_skb env_tso skb_gso_bad world0))) = 1
   \<and> handle_tso env_tso_io world0 skb_gso = (- EIO, False, [])
   \<and> - EIO \<noteq> (0::int) \<and> - EIO \<noteq> - EINVAL
   \<and> released (snd (efx_enqueue_skb env_tso_io skb_gso world0)) = [(10, Kfree)]
   \<and> tso_fallbacks (txq1 (snd (efx_enqueue_skb env_tso_io skb_gso world0))) = 0"
proof -
  have a: "tso_segments skb_gso = 2" "tso_segments skb_gso_bad = 2"
    "tso_segments seg_a = 0" "tso_segments seg_b = 0"
    by (simp_all add: tso_segments_def skb_gso_def skb_gso_bad_def seg_a_def seg_b_def)
  have b: "handle_tso env_tso world0 skb_gso = (- EINVAL, False, [])"
    "handle_tso env_tso world0 skb_gso_bad = (- EINVAL, False, [])"
    "handle_tso env_tso_io world0 skb_gso = (- EIO, False, [])"
    by (simp_all add: env_tso_def env_tso_io_def env0_def)
  have c: "gso_segment skb_gso = Inr [seg_a, seg_b]" "gso_segment skb_gso_bad = Inl (- 12)"
    "skb_id skb_gso = 10" "skb_id skb_gso_bad = 13"
    by (simp_all add: skb_gso_def skb_gso_bad_def)
  have d: "- EIO \<noteq> (0::int)" "- EIO \<noteq> - EINVAL" "(- 12 :: int) \<noteq> 0"
    by (simp_all add: EIO_def EINVAL_def)
  have z: "tso_fallbacks (txq1 world0) = 0" "released world0 = []"
    by (simp_all add: world0_def queue0_def)
  have s: "\<forall>s\<in>set [seg_a, seg_b]. tso_segments s = 0"
    using a by simp
  have nz: "tso_segments skb_gso \<noteq> 0" "tso_segments skb_gso_bad \<noteq> 0"
    using a by simp_all
  note t1 = efx_enqueue_skb_tso_fallback
              [of skb_gso env_tso world0 False "[]" "[seg_a, seg_b]" "- 12" "- EIO",
               THEN conjunct1, rule_format, OF conjI [OF nz(1) conjI [OF b(1) c(1)]]]
  note t2 = efx_enqueue_skb_tso_fallback
              [of skb_gso_bad env_tso world0 False "[]" "[]" "- 12" "- EIO",
               THEN conjunct2, THEN conjunct1, rule_format,
               OF conjI [OF nz(2) conjI [OF b(2) conjI [OF c(2) d(3)]]]]
  note t3 = efx_enqueue_skb_tso_fallback
              [of skb_gso env_tso_io world0 False "[]" "[]" "- 12" "- EIO",
               THEN conjunct2, THEN conjunct2, rule_format,
               OF conjI [OF nz(1) conjI [OF b(3) conjI [OF d(1) d(2)]]]]
  have r1: "fst (efx_enqueue_skb env_tso skb_gso world0) = 0"
    "(10, Consume) \<in> set (released (snd (efx_enqueue_skb env_tso skb_gso world0)))"
    "tso_fallbacks (txq1 (snd (efx_enqueue_skb env_tso skb_gso world0))) = 1"
    using t1 [THEN conjunct1] apply simp
    using t1 [THEN conjunct2, THEN conjunct1] c(3) apply simp
    using t1 [THEN conjunct2, THEN conjunct2, THEN mp, OF s] z apply simp
    done
  have r2: "released (snd (efx_enqueue_skb env_tso skb_gso_bad world0)) = [(13, Kfree)]"
    "tso_fallbacks (txq1 (snd (efx_enqueue_skb env_tso skb_gso_bad world0))) = 1"
    using t2 [THEN conjunct1] z c(4)
    apply (simp add: efx_enqueue_skb_err_result tso_fallbacks_incr_def tso_handled_def)
    using t2 [THEN conjunct2] z apply simp
    done
  have r3: "released (snd (efx_enqueue_skb env_tso_io skb_gso world0)) = [(10, Kfree)]"
    "tso_fallbacks (txq1 (snd (efx_enqueue_skb env_tso_io skb_gso world0))) = 0"
    using t3 [THEN conjunct1] z c(3)
    apply (simp add: efx_enqueue_skb_err_result tso_handled_def)
    using t3 [THEN conjunct2] z apply simp
    done
  from a b c(1,2) d(1,2) z(1) r1 r2 r3 show ?thesis by simp
qed

subsection \<open>Examples of the raw-frame and traffic-class properties\<close>

lemma xdp_fixture_facts:
  "xdp_bound 0 world_xdp queue_xdp"
  "xdp_space world_xdp queue_xdp = 3"
  "xdp_bound 0 world_full queue_full"
  "xdp_space world_full queue_full = 0"
  "insert_count queue_xdp = 5"
  "tx_packets queue_xdp = 0"
  "ptr_mask queue_xdp = mask 3"
  "returned_frames world_xdp = []"
  "pushes world_xdp = []"
  "released world_xdp = []"
  "returned_frames world_full = []"
  by (simp_all add: xdp_bound_def xdp_space_def world_xdp_def world_full_def world0_def
      nic0_def queue_xdp_def queue_full_def queue0_def mask_eq_exp_minus_1)

lemma xdp_fixture_maps:
  "dma_map_single env0 (frames5 j) \<noteq> None"
  "dma_map_single (env_fail k) (frames5 j) = (if j = k then None else Some 4096)"
  by (simp_all add: env0_def env_fail_def frames5_def)

lemma frames5_id: "xdpf_id (frames5 j) = 100 + j" "xdpf_len (frames5 j) = 64"
  by (simp_all add: frames5_def)

lemma efx_xdp_tx_buffers_none_queued:
  assumes "xdp_bound cpu w q" and "n \<noteq> 0"
    and "n \<le> 0 \<or> xdp_space w q \<le> 0 \<or> dma_map_single e (fs 0) = None"
  shows "efx_xdp_tx_buffers e cpu n (Some fs) flush w = (- EIO, w)"
proof -
  have l: "efx_xdp_tx_loop e (xdp_space w q) n fs 0 q = (int 0, q)"
    using assms(3) by (subst efx_xdp_tx_loop.simps) (auto simp add: Let_def)
  have same: "(xdp_tx_queues (efx w))(cpu \<mapsto> q) = xdp_tx_queues (efx w)"
    using assms(1) by (auto simp add: xdp_bound_def)
  show ?thesis
    by (simp add: efx_xdp_tx_buffers_result [OF assms(1,2) l] same)
qed

theorem efx_xdp_tx_buffers_fills_space_witness:
  "xdp_bound 0 world_xdp queue_xdp
   \<and> xdp_space world_xdp queue_xdp = 3
   \<and> fst (efx_xdp_tx_buffers env0 0 5 (Some frames5) True world_xdp) = 3
   \<and> returned_frames (snd (efx_xdp_tx_buffers env0 0 5 (Some frames5) True world_xdp))
       = [103, 104]
   \<and> xdp_tx_queues (efx (snd (efx_xdp_tx_buffers env0 0 5 (Some frames5) True world_xdp))) 0
       = Some (efx_xdp_queue_frames env0 frames5 0 3 queue_xdp)
   \<and> insert_count (efx_xdp_queue_frames env0 frames5 0 3 queue_xdp) = 8
   \<and> tx_packets (efx_xdp_queue_frames env0 frames5 0 3 queue_xdp) = 3
   \<and> raw_frame_slot (buffer (efx_xdp_queue_frames env0 frames5 0 3 queue_xdp) 5) (frames5 0)
   \<and> raw_frame_slot (buffer (efx_xdp_queue_frames env0 frames5 0 3 queue_xdp) 6) (frames5 1)
   \<and> raw_frame_slot (buffer (efx_xdp_queue_frames env0 frames5 0 3 queue_xdp) 7) (frames5 2)
   \<and> pushes (snd (efx_xdp_tx_buffers env0 0 5 (Some frames5) True world_xdp)) = [0]"
proof -
  have sp: "xdp_space world_xdp queue_xdp = int 3"
    by (simp add: xdp_fixture_facts)
  have maps: "\<forall>j<nat 5. dma_map_single env0 (frames5 j) \<noteq> None"
    by (simp add: xdp_fixture_maps)
  note t = efx_xdp_tx_buffers_fills_space
             [OF xdp_fixture_facts(1) sp _ _ maps, of True 3, simplified]
  have ring: "ptr_mask queue_xdp = mask 3 \<and> (3::nat) \<le> 32 \<and> (3::nat) \<le> 2 ^ 3"
    by (simp add: xdp_fixture_facts)
  have up: "[3..<5] = [3, 4::nat]"
    by (simp add: upt_rec)
  from t have sl: "\<forall>j < 3. raw_frame_slot
        (buffer (efx_xdp_queue_frames env0 frames5 0 3 queue_xdp)
           ((insert_count queue_xdp + of_nat j) AND ptr_mask queue_xdp)) (frames5 j)"
    using ring by simp
  have s0: "raw_frame_slot (buffer (efx_xdp_queue_frames env0 frames5 0 3 queue_xdp) 5) (frames5 0)"
    using sl [rule_format, of 0]
    by (simp add: xdp_fixture_facts(5) queue_xdp_def queue0_def)
  have s1: "raw_frame_slot (buffer (efx_xdp_queue_frames env0 frames5 0 3 queue_xdp) 6) (frames5 1)"
    using sl [rule_format, of 1]
    by (simp add: xdp_fixture_facts(5) queue_xdp_def queue0_def)
  have s2: "raw_frame_slot (buffer (efx_xdp_queue_frames env0 frames5 0 3 queue_xdp) 7) (frames5 2)"
    using sl [rule_format, of 2]
    by (simp add: xdp_fixture_facts(5) queue_xdp_def queue0_def)
  from t s0 s1 s2 show ?thesis
    by (simp add: xdp_fixture_facts up frames5_id)
qed

theorem efx_xdp_tx_buffers_fills_space_counterexample:
  "xdp_bound 0 world_full queue_full
   \<and> xdp_space world_full queue_full = 0
   \<and> dma_map_single env0 (frames5 0) \<noteq> None
   \<and> fst (efx_xdp_tx_buffers env0 0 1 (Some frames5) True world_full) = - EIO
   \<and> fst (efx_xdp_tx_buffers env0 0 1 (Some frames5) True world_full) \<noteq> 0
   \<and> returned_frames world_full = []
   \<and> returned_frames (snd (efx_xdp_tx_buffers env0 0 1 (Some frames5) True world_full)) = []"
proof -
  have "efx_xdp_tx_buffers env0 0 1 (Some frames5) True world_full = (- EIO, world_full)"
    by (rule efx_xdp_tx_buffers_none_queued [OF xdp_fixture_facts(3)])
       (simp_all add: xdp_fixture_facts)
  then show ?thesis
    by (simp add: xdp_fixture_facts xdp_fixture_maps EIO_def)
qed

theorem efx_xdp_tx_buffers_mapping_failure_witness:
  "xdp_bound 0 world_xdp queue_xdp
   \<and> xdp_space world_xdp queue_xdp = 3
   \<and> dma_map_single (env_fail 2) (frames5 0) \<noteq> None
   \<and> dma_map_single (env_fail 2) (frames5 1) \<noteq> None
   \<and> dma_map_single (env_fail 2) (frames5 2) = None
   \<and> fst (efx_xdp_tx_buffers (env_fail 2) 0 5 (Some frames5) True world_xdp) = 2
   \<and> xdp_tx_queues
        (efx (snd (efx_xdp_tx_buffers (env_fail 2) 0 5 (Some frames5) True world_xdp))) 0
       = Some (efx_xdp_queue_frames (env_fail 2) frames5 0 2 queue_xdp)
   \<and> insert_count (efx_xdp_queue_frames (env_fail 2) frames5 0 2 queue_xdp) = 7
   \<and> raw_frame_slot
        (buffer (efx_xdp_queue_frames (env_fail 2) frames5 0 2 queue_xdp) 5) (frames5 0)
   \<and> raw_frame_slot
        (buffer (efx_xdp_queue_frames (env_fail 2) frames5 0 2 queue_xdp) 6) (frames5 1)
   \<and> returned_frames
        (snd (efx_xdp_tx_buffers (env_fail 2) 0 5 (Some frames5) True world_xdp))
       = [102, 103, 104]
   \<and> released (snd (efx_xdp_tx_buffers (env_fail 2) 0 5 (Some frames5) True world_xdp)) = []"
proof -
  have h: "(0::nat) < 2" "int 2 < 5" "int 2 < xdp_space world_xdp queue_xdp"
    "\<forall>j<2. dma_map_single (env_fail 2) (frames5 j) \<noteq> None"
    "dma_map_single (env_fail 2) (frames5 2) = None"
    by (simp_all add: xdp_fixture_facts xdp_fixture_maps)
  note t = efx_xdp_tx_buffers_mapping_failure
             [OF xdp_fixture_facts(1) h, of True 3, simplified]
  have ring: "ptr_mask queue_xdp = mask 3 \<and> (3::nat) \<le> 32 \<and> (2::nat) \<le> 2 ^ 3"
    by (simp add: xdp_fixture_facts)
  have up: "[2..<5] = [2, 3, 4::nat]"
    by (simp add: upt_rec)
  from t have sl: "\<forall>j < 2. raw_frame_slot
        (buffer (efx_xdp_queue_frames (env_fail 2) frames5 0 2 queue_xdp)
           ((insert_count queue_xdp + of_nat j) AND ptr_mask queue_xdp)) (frames5 j)"
    using ring by simp
  have s0: "raw_frame_slot
        (buffer (efx_xdp_queue_frames (env_fail 2) frames5 0 2 queue_xdp) 5) (frames5 0)"
    using sl [rule_format, of 0]
    by (simp add: xdp_fixture_facts(5) queue_xdp_def queue0_def)
  have s1: "raw_frame_slot
        (buffer (efx_xdp_queue_frames (env_fail 2) frames5 0 2 queue_xdp) 6) (frames5 1)"
    using sl [rule_format, of 1]
    by (simp add: xdp_fixture_facts(5) queue_xdp_def queue0_def)
  from t s0 s1 show ?thesis
    by (simp add: xdp_fixture_facts xdp_fixture_maps up frames5_id)
qed

theorem efx_xdp_tx_buffers_mapping_failure_counterexample:
  "xdp_bound 0 world_xdp queue_xdp
   \<and> xdp_space world_xdp queue_xdp = 3
   \<and> dma_map_single (env_fail 0) (frames5 0) = None
   \<and> fst (efx_xdp_tx_buffers (env_fail 0) 0 5 (Some frames5) True world_xdp) = - EIO
   \<and> returned_frames world_xdp = []
   \<and> returned_frames
        (snd (efx_xdp_tx_buffers (env_fail 0) 0 5 (Some frames5) True world_xdp)) = []
   \<and> map (\<lambda>j. xdpf_id (frames5 j)) [0..<5] = [100, 101, 102, 103, 104]"
proof -
  have "efx_xdp_tx_buffers (env_fail 0) 0 5 (Some frames5) True world_xdp
        = (- EIO, world_xdp)"
    by (rule efx_xdp_tx_buffers_none_queued [OF xdp_fixture_facts(1)])
       (simp_all add: xdp_fixture_maps)
  then show ?thesis
    by (simp add: xdp_fixture_facts xdp_fixture_maps upt_rec frames5_id)
qed

theorem efx_xdp_tx_buffers_errors_witness:
  "xdp_tx_queue_count (efx world_xdp) \<le> 3
   \<and> efx_xdp_tx_buffers env0 3 5 (Some frames5) True world_xdp = (- EINVAL, world_xdp)
   \<and> efx_xdp_tx_buffers env0 0 5 None True world_xdp = (- EINVAL, world_xdp)
   \<and> xdp_bound 0 world_full queue_full
   \<and> fst (efx_xdp_tx_loop env0 (xdp_space world_full queue_full) 5 frames5 0 queue_full) = 0
   \<and> efx_xdp_tx_buffers env0 0 5 (Some frames5) True world_full = (- EIO, world_full)"
proof -
  have a: "xdp_tx_queue_count (efx world_xdp) \<le> 3"
    by (simp add: world_xdp_def world0_def nic0_def)
  have c: "fst (efx_xdp_tx_loop env0 (xdp_space world_full queue_full) 5 frames5 0 queue_full) = 0"
    by (simp add: efx_xdp_tx_loop_none_queued xdp_fixture_facts)
  note t = efx_xdp_tx_buffers_errors
  have r1: "efx_xdp_tx_buffers env0 3 5 (Some frames5) True world_xdp = (- EINVAL, world_xdp)"
    using t [of world_xdp 3 env0 5 "Some frames5" True, THEN conjunct1] a by simp
  have r2: "efx_xdp_tx_buffers env0 0 5 None True world_xdp = (- EINVAL, world_xdp)"
    using t [of world_xdp 0 env0 5 None True, THEN conjunct2, THEN conjunct1] by simp
  have r3: "efx_xdp_tx_buffers env0 0 5 (Some frames5) True world_full = (- EIO, world_full)"
    using t [of world_full 0 env0 5 None True queue_full frames5,
             THEN conjunct2, THEN conjunct2] xdp_fixture_facts(3) c by simp
  from a r1 r2 r3 c xdp_fixture_facts(3) show ?thesis by simp
qed

theorem efx_xdp_tx_buffers_empty_witness:
  "xdp_bound 0 world_xdp queue_xdp
   \<and> efx_xdp_tx_buffers env0 0 0 (Some frames5) True world_xdp = (0, world_xdp)
   \<and> efx_xdp_tx_buffers env0 0 0 None False world_xdp = (0, world_xdp)"
  using efx_xdp_tx_buffers_empty [OF xdp_fixture_facts(1), of env0 "Some frames5" True]
    efx_xdp_tx_buffers_empty [OF xdp_fixture_facts(1), of env0 None False]
    xdp_fixture_facts(1)
  by simp

theorem efx_setup_tc_decrease_witness:
  "(ucast (qopt_num_tc (mqprio tc_world0)) :: u32) < scast (nd_num_tc (net_dev tc_world0))
   \<and> (ucast (qopt_num_tc (mqprio tc_world0)) :: u32) \<le> EFX_MAX_TX_TC tc_env0
   \<and> fst (efx_setup_tc tc_env0 TC_SETUP_QDISC_MQPRIO tc_world0) = 0
   \<and> tx_queues (snd (efx_setup_tc tc_env0 TC_SETUP_QDISC_MQPRIO tc_world0)) = tc_queues0
   \<and> n_tx_channels (snd (efx_setup_tc tc_env0 TC_SETUP_QDISC_MQPRIO tc_world0)) = 4
   \<and> nd_num_tc (net_dev (snd (efx_setup_tc tc_env0 TC_SETUP_QDISC_MQPRIO tc_world0))) = 1
   \<and> nd_real_num_tx_queues
        (net_dev (snd (efx_setup_tc tc_env0 TC_SETUP_QDISC_MQPRIO tc_world0))) = 4"
proof -
  have d: "(ucast (qopt_num_tc (mqprio tc_world0)) :: u32) < scast (nd_num_tc (net_dev tc_world0))"
    "(ucast (qopt_num_tc (mqprio tc_world0)) :: u32) \<le> EFX_MAX_TX_TC tc_env0"
    by (simp_all add: tc_world0_def tc_env0_def)
  note t = efx_setup_tc_decrease [OF d(1), of tc_env0 TC_SETUP_QDISC_MQPRIO]
  from t d(2) have eq: "efx_setup_tc tc_env0 TC_SETUP_QDISC_MQPRIO tc_world0
                        = efx_setup_tc_lowered tc_env0 tc_world0"
    by simp
  have lo: "fst (efx_setup_tc_lowered tc_env0 tc_world0) = 0"
    "nd_num_tc (net_dev (snd (efx_setup_tc_lowered tc_env0 tc_world0))) = 1"
    "nd_real_num_tx_queues (net_dev (snd (efx_setup_tc_lowered tc_env0 tc_world0))) = 4"
    by (simp_all add: efx_setup_tc_lowered_def tc_env0_def tc_world0_def Let_def)
  have fr: "tx_queues tc_world0 = tc_queues0" "n_tx_channels tc_world0 = 4"
    by (simp_all add: tc_world0_def)
  from t d eq lo fr show ?thesis by simp
qed

end
